theory Spec2Isabelle
  imports Complex_Main "HOL-Library.Sublist"
begin

section \<open>JavaScript values\<close>

text \<open>
  A JavaScript string is a sequence of UTF-16 code units; every string method the
  sources call (\<^verbatim>\<open>includes\<close>, \<^verbatim>\<open>startsWith\<close>, \<^verbatim>\<open>replace\<close> with a
  character class, \<^verbatim>\<open>charCodeAt\<close>) works on code units. A string is therefore a
  list of code-unit numbers. All the non-ASCII characters that occur in the sources lie
  in the Basic Multilingual Plane: one code unit each.
\<close>

type_synonym jsstring = "nat list"

definition ascii :: "string \<Rightarrow> jsstring" where
  "ascii s = map of_char s"

text \<open>\<^verbatim>\<open>s.startsWith(t)\<close> and \<^verbatim>\<open>s.includes(t)\<close>.\<close>

fun str_startsWith :: "jsstring \<Rightarrow> jsstring \<Rightarrow> bool" where
  "str_startsWith s [] = True"
| "str_startsWith [] (c # cs) = False"
| "str_startsWith (d # ds) (c # cs) = (d = c \<and> str_startsWith ds cs)"

fun str_includes :: "jsstring \<Rightarrow> jsstring \<Rightarrow> bool" where
  "str_includes [] t = (t = [])"
| "str_includes (c # cs) t = (str_startsWith (c # cs) t \<or> str_includes cs t)"

text \<open>
  \<^verbatim>\<open>s.toLowerCase()\<close>, on the letters A to Z. The sources lower-case only texts that
  are then compared with ASCII words (\<^verbatim>\<open>quota\<close>, \<^verbatim>\<open>completed\<close>, ...).
\<close>

definition toLowerCase :: "jsstring \<Rightarrow> jsstring" where
  "toLowerCase s = map (\<lambda>c. if 65 \<le> c \<and> c \<le> 90 then c + 32 else c) s"

text \<open>
  A JavaScript number is a double: \<^verbatim>\<open>NaN\<close>, an infinity, or a finite value, kept as
  the real number it is. Every arithmetic operation rounds its exact result to the nearest
  double (\<open>round_double\<close> below). The sign of zero is outside the model.
\<close>

datatype number = NaN | PosInfinity | NegInfinity | Finite real

text \<open>Truthiness of a number: \<^verbatim>\<open>0\<close> and \<^verbatim>\<open>NaN\<close> are falsy.\<close>

fun num_truthy :: "number \<Rightarrow> bool" where
  "num_truthy (Finite r) = (r \<noteq> 0)"
| "num_truthy NaN = False"
| "num_truthy PosInfinity = True"
| "num_truthy NegInfinity = True"

text \<open>\<^verbatim>\<open>x || d\<close> for an optional numeric field \<^verbatim>\<open>x\<close> (\<^verbatim>\<open>undefined\<close> is falsy).\<close>

fun num_or :: "number option \<Rightarrow> number \<Rightarrow> number" where
  "num_or None d = d"
| "num_or (Some n) d = (if num_truthy n then n else d)"

text \<open>\<^verbatim>\<open>a > b\<close>: false as soon as one side is \<^verbatim>\<open>NaN\<close>.\<close>

fun num_gt :: "number \<Rightarrow> number \<Rightarrow> bool" where
  "num_gt (Finite a) (Finite b) = (a > b)"
| "num_gt NaN b = False"
| "num_gt a NaN = False"
| "num_gt PosInfinity b = (b \<noteq> PosInfinity)"
| "num_gt a PosInfinity = False"
| "num_gt NegInfinity b = False"
| "num_gt (Finite a) NegInfinity = True"

fun num_neg :: "number \<Rightarrow> number" where
  "num_neg (Finite a) = Finite (- a)"
| "num_neg NaN = NaN"
| "num_neg PosInfinity = NegInfinity"
| "num_neg NegInfinity = PosInfinity"

text \<open>
  Rounding a real number to the nearest double, ties to the even mantissa (IEEE 754
  binary64, the rounding of every arithmetic operation of JavaScript). For a number
  \<^verbatim>\<open>x\<close> other than 0 with \<^verbatim>\<open>2^e <= |x| < 2^(e+1)\<close> the doubles around it are the
  multiples of \<^verbatim>\<open>2^(e-52)\<close> (of \<^verbatim>\<open>2^(-1074)\<close> below the normal range, where
  \<^verbatim>\<open>e\<close> is taken as -1022); a result of magnitude \<^verbatim>\<open>2^1024\<close> or more is an
  infinity. \<open>binade\<close> finds \<^verbatim>\<open>e\<close> by halving or doubling; the bounds 1024 and 1075
  on the number of steps are reached only where the result overflows or lies below the
  normal range.
\<close>

definition round_half_even :: "real \<Rightarrow> int" where
  "round_half_even y =
     (let f = \<lfloor>y\<rfloor>; d = y - of_int f
      in if d < 1 / 2 then f else if d > 1 / 2 then f + 1 else if even f then f else f + 1)"

fun binade_up :: "nat \<Rightarrow> real \<Rightarrow> int" where
  "binade_up 0 x = 0"
| "binade_up (Suc k) x = (if x < 2 then 0 else binade_up k (x / 2) + 1)"

fun binade_down :: "nat \<Rightarrow> real \<Rightarrow> int" where
  "binade_down 0 x = 0"
| "binade_down (Suc k) x = (if 1 \<le> x then 0 else binade_down k (2 * x) - 1)"

definition binade :: "real \<Rightarrow> int" where
  "binade x = (if 1 \<le> \<bar>x\<bar> then binade_up 1024 \<bar>x\<bar> else binade_down 1075 \<bar>x\<bar>)"

definition round_double :: "real \<Rightarrow> number" where
  "round_double x =
     (if x = 0 then Finite 0
      else
        (let e = max (binade x) (- 1022);
             q = 2 powi (e - 52);
             r = q * of_int (round_half_even (x / q))
         in if \<bar>r\<bar> \<ge> 2 ^ 1024 then (if x < 0 then NegInfinity else PosInfinity)
            else Finite r))"

text \<open>\<^verbatim>\<open>a + b\<close>, \<^verbatim>\<open>a - b\<close>, \<^verbatim>\<open>a * b\<close> and \<^verbatim>\<open>a / b\<close>: the exact result
  rounded, with the IEEE rules for the infinities.\<close>

fun num_add :: "number \<Rightarrow> number \<Rightarrow> number" where
  "num_add (Finite a) (Finite b) = round_double (a + b)"
| "num_add NaN b = NaN"
| "num_add a NaN = NaN"
| "num_add PosInfinity b = (if b = NegInfinity then NaN else PosInfinity)"
| "num_add NegInfinity b = (if b = PosInfinity then NaN else NegInfinity)"
| "num_add (Finite a) b = b"

definition num_sub :: "number \<Rightarrow> number \<Rightarrow> number" where
  "num_sub a b = num_add a (num_neg b)"

text \<open>The sign of a number that is not \<^verbatim>\<open>NaN\<close>: -1, 0 or 1.\<close>

fun num_sign :: "number \<Rightarrow> int" where
  "num_sign (Finite a) = (if a > 0 then 1 else if a < 0 then - 1 else 0)"
| "num_sign PosInfinity = 1"
| "num_sign NegInfinity = - 1"
| "num_sign NaN = 0"

definition signed_infinity :: "int \<Rightarrow> number" where
  "signed_infinity s = (if s < 0 then NegInfinity else PosInfinity)"

fun num_mul :: "number \<Rightarrow> number \<Rightarrow> number" where
  "num_mul (Finite a) (Finite b) = round_double (a * b)"
| "num_mul NaN b = NaN"
| "num_mul a NaN = NaN"
| "num_mul a b =
     (if num_sign a = 0 \<or> num_sign b = 0 then NaN
      else signed_infinity (num_sign a * num_sign b))"

fun num_div :: "number \<Rightarrow> number \<Rightarrow> number" where
  "num_div NaN b = NaN"
| "num_div a NaN = NaN"
| "num_div (Finite a) (Finite b) =
     (if b \<noteq> 0 then round_double (a / b)
      else if a = 0 then NaN
      else signed_infinity (num_sign (Finite a)))"
| "num_div (Finite a) b = Finite 0"
| "num_div a (Finite b) =
     signed_infinity (num_sign a * (if b < 0 then - 1 else 1))"
| "num_div a b = NaN"

section \<open>The records of \<^verbatim>\<open>types.ts\<close>\<close>

text \<open>
  Field names carry the record's name as a prefix, since two interfaces share
  \<^verbatim>\<open>id\<close>, \<^verbatim>\<open>type\<close> and \<^verbatim>\<open>title\<close>. An optional field (\<^verbatim>\<open>f?: T\<close>) is an
  \<open>option\<close>. Of \<^verbatim>\<open>Asset\<close>, the fields that no function below reads or writes
  (\<^verbatim>\<open>ticker\<close>, \<^verbatim>\<open>allocation\<close>, the fundamental metrics) are left out; the object
  spread \<^verbatim>\<open>{...a, f: v}\<close> is the record update, which keeps every other field.
\<close>

record AnalysisScores =
  suitability :: number
  market :: number
  growth :: number
  valuation :: number
  risk :: number

record Asset =
  asset_id :: jsstring
  asset_name :: jsstring
  asset_code :: "jsstring option"
  asset_type :: jsstring
  asset_amount :: number
  asset_quantity :: "number option"
  asset_currentPrice :: "number option"
  asset_profitLoss :: "number option"
  asset_currency :: jsstring
  asset_confidence :: "number option"
  asset_description :: "jsstring option"
  asset_analysisScores :: "AnalysisScores option"

record ClientProfile =
  age :: number
  gender :: jsstring
  region :: jsstring
  riskTolerance :: jsstring
  investmentHorizon :: jsstring
  goals :: jsstring
  familyStructure :: jsstring
  currentHoldings :: "Asset list"

text \<open>\<^verbatim>\<open>Record<string, T>\<close> is a map from keys to values.\<close>

record ProposalSettings =
  proposalCounts :: "jsstring \<rightharpoonup> number"
  proposalDetails :: "(jsstring \<rightharpoonup> jsstring list) option"

section \<open>\<^verbatim>\<open>InputSection\<close>: proposal settings\<close>

text \<open>
  \<^verbatim>\<open>toggleProposalType\<close>: the state updater passed to \<^verbatim>\<open>setSettings\<close>.
  \<^verbatim>\<open>prev.proposalCounts[type] || 0\<close> reads a missing key as 0.
\<close>

definition toggleProposalType :: "jsstring \<Rightarrow> ProposalSettings \<Rightarrow> ProposalSettings" where
  "toggleProposalType ty prev =
     (let currentCount = num_or (proposalCounts prev ty) (Finite 0)
      in prev\<lparr>proposalCounts :=
           (proposalCounts prev)(ty \<mapsto> (if num_gt currentCount (Finite 0) then Finite 0 else Finite 1))\<rparr>)"

text \<open>\<^verbatim>\<open>settings.proposalDetails?.[type] || []\<close>: the selection the form shows for a type.\<close>

definition selectedDetails :: "ProposalSettings \<Rightarrow> jsstring \<Rightarrow> jsstring list" where
  "selectedDetails s ty =
     (case proposalDetails s of
        None \<Rightarrow> []
      | Some d \<Rightarrow> (case d ty of None \<Rightarrow> [] | Some l \<Rightarrow> l))"

definition toggleSubCategory :: "jsstring \<Rightarrow> jsstring \<Rightarrow> ProposalSettings \<Rightarrow> ProposalSettings" where
  "toggleSubCategory ty sub prev =
     (let currentDetails = selectedDetails prev ty;
          newDetails = (if sub \<in> set currentDetails
                        then filter (\<lambda>d. d \<noteq> sub) currentDetails
                        else currentDetails @ [sub])
      in prev\<lparr>proposalDetails :=
           Some ((case proposalDetails prev of None \<Rightarrow> Map.empty | Some d \<Rightarrow> d)(ty \<mapsto> newDetails))\<rparr>)"

text \<open>\<^verbatim>\<open>handleProposalCountChange\<close>.\<close>

definition handleProposalCountChange :: "jsstring \<Rightarrow> number \<Rightarrow> ProposalSettings \<Rightarrow> ProposalSettings" where
  "handleProposalCountChange ty count prev =
     prev\<lparr>proposalCounts := (proposalCounts prev)(ty \<mapsto> count)\<rparr>"

text \<open>The settings \<^verbatim>\<open>InputSection\<close> starts from: three stocks, nothing else.\<close>

definition initialSettings :: ProposalSettings where
  "initialSettings =
     \<lparr>proposalCounts =
        [ascii ''Stock'' \<mapsto> Finite 3, ascii ''Mutual Fund'' \<mapsto> Finite 0,
         ascii ''Bond'' \<mapsto> Finite 0, ascii ''Insurance'' \<mapsto> Finite 0,
         ascii ''ETF'' \<mapsto> Finite 0],
      proposalDetails =
        Some [ascii ''Stock'' \<mapsto> [], ascii ''Mutual Fund'' \<mapsto> [],
              ascii ''Bond'' \<mapsto> [], ascii ''Insurance'' \<mapsto> [],
              ascii ''ETF'' \<mapsto> []]\<rparr>"

section \<open>\<^verbatim>\<open>InputSection\<close>: the holding ledger\<close>

text \<open>
  \<^verbatim>\<open>addHolding\<close>, as the updater it passes to \<^verbatim>\<open>setProfile\<close>. \<open>now\<close> is the text
  of \<^verbatim>\<open>Date.now().toString()\<close>; \<open>newHolding\<close> is the form's row, whose own id is
  overwritten. An empty name returns early.
\<close>

definition addHolding :: "jsstring \<Rightarrow> Asset \<Rightarrow> ClientProfile \<Rightarrow> ClientProfile" where
  "addHolding now newHolding prev =
     (if asset_name newHolding = [] then prev
      else prev\<lparr>currentHoldings :=
             currentHoldings prev @ [newHolding\<lparr>asset_id := now, asset_confidence := Some (Finite 1)\<rparr>]\<rparr>)"

text \<open>
  \<^verbatim>\<open>updateHoldingRow(id, field, value)\<close> is called with six fields; the field and its
  new value are one constructor.
\<close>

datatype holding_field =
    FieldName jsstring
  | FieldCode jsstring
  | FieldType jsstring
  | FieldQuantity number
  | FieldAmount number
  | FieldProfitLoss number

fun setField :: "holding_field \<Rightarrow> Asset \<Rightarrow> Asset" where
  "setField (FieldName v) h = h\<lparr>asset_name := v\<rparr>"
| "setField (FieldCode v) h = h\<lparr>asset_code := Some v\<rparr>"
| "setField (FieldType v) h = h\<lparr>asset_type := v\<rparr>"
| "setField (FieldQuantity v) h = h\<lparr>asset_quantity := Some v\<rparr>"
| "setField (FieldAmount v) h = h\<lparr>asset_amount := v\<rparr>"
| "setField (FieldProfitLoss v) h = h\<lparr>asset_profitLoss := Some v\<rparr>"

definition updateHoldingRow :: "jsstring \<Rightarrow> holding_field \<Rightarrow> ClientProfile \<Rightarrow> ClientProfile" where
  "updateHoldingRow i fv prev =
     prev\<lparr>currentHoldings :=
       map (\<lambda>h. if asset_id h = i then setField fv h else h) (currentHoldings prev)\<rparr>"

text \<open>The delete button of a row: \<^verbatim>\<open>currentHoldings.filter(x => x.id !== h.id)\<close>.\<close>

definition removeHolding :: "jsstring \<Rightarrow> ClientProfile \<Rightarrow> ClientProfile" where
  "removeHolding i p = p\<lparr>currentHoldings := filter (\<lambda>x. asset_id x \<noteq> i) (currentHoldings p)\<rparr>"

datatype ledger_op =
    Add jsstring Asset
  | Update jsstring holding_field
  | Remove jsstring

fun apply_ledger_op :: "ClientProfile \<Rightarrow> ledger_op \<Rightarrow> ClientProfile" where
  "apply_ledger_op p (Add now h) = addHolding now h p"
| "apply_ledger_op p (Update i fv) = updateHoldingRow i fv p"
| "apply_ledger_op p (Remove i) = removeHolding i p"

text \<open>The operations are applied in the order received.\<close>

definition run_ledger_ops :: "ClientProfile \<Rightarrow> ledger_op list \<Rightarrow> ClientProfile" where
  "run_ledger_ops p ops = foldl apply_ledger_op p ops"

text \<open>
  The totals, computed from the current holdings at every render:
  \<^verbatim>\<open>reduce((sum, h) => sum + (h.amount || 0), 0)\<close> and the same for \<^verbatim>\<open>profitLoss\<close>.
\<close>

definition totalAmount :: "ClientProfile \<Rightarrow> number" where
  "totalAmount p =
     foldl (\<lambda>sum h. num_add sum (num_or (Some (asset_amount h)) (Finite 0))) (Finite 0)
       (currentHoldings p)"

definition totalProfitLoss :: "ClientProfile \<Rightarrow> number" where
  "totalProfitLoss p =
     foldl (\<lambda>sum h. num_add sum (num_or (asset_profitLoss h) (Finite 0))) (Finite 0)
       (currentHoldings p)"

definition totalInvested :: "ClientProfile \<Rightarrow> number" where
  "totalInvested p = num_sub (totalAmount p) (totalProfitLoss p)"

definition totalReturnPct :: "ClientProfile \<Rightarrow> number" where
  "totalReturnPct p =
     (if num_gt (totalInvested p) (Finite 0)
      then num_mul (num_div (totalProfitLoss p) (totalInvested p)) (Finite 100)
      else Finite 0)"

text \<open>The real value of a finite number, and of an optional one read as 0 when absent.\<close>

fun is_finite :: "number \<Rightarrow> bool" where
  "is_finite (Finite r) = True"
| "is_finite n = False"

fun finite_val :: "number \<Rightarrow> real" where
  "finite_val (Finite r) = r"
| "finite_val n = 0"

definition amount_val :: "Asset \<Rightarrow> real" where
  "amount_val h = finite_val (asset_amount h)"

definition profitLoss_val :: "Asset \<Rightarrow> real" where
  "profitLoss_val h = (case asset_profitLoss h of None \<Rightarrow> 0 | Some n \<Rightarrow> finite_val n)"

text \<open>
  An entry in whole units: its amount and its profit/loss (when present) are finite whole
  numbers. The magnitude of an entry is what it can add to a running total.
\<close>

definition is_whole :: "real \<Rightarrow> bool" where
  "is_whole x \<longleftrightarrow> of_int \<lfloor>x\<rfloor> = x"

definition whole_entry :: "Asset \<Rightarrow> bool" where
  "whole_entry h \<longleftrightarrow>
     is_finite (asset_amount h) \<and> is_whole (amount_val h) \<and>
     (case asset_profitLoss h of None \<Rightarrow> True | Some n \<Rightarrow> is_finite n)
     \<and> is_whole (profitLoss_val h)"

definition magnitude :: "Asset \<Rightarrow> real" where
  "magnitude h = \<bar>amount_val h\<bar> + \<bar>profitLoss_val h\<bar>"

section \<open>\<^verbatim>\<open>parseFloat\<close> and the amount fields\<close>

text \<open>
  \<^verbatim>\<open>parseFloat\<close> (ECMAScript 19.2.4): skip leading white space, then read the longest
  prefix that is a decimal literal: a sign, then \<^verbatim>\<open>Infinity\<close>, or digits with an
  optional fraction and an optional exponent. What follows the prefix is ignored; with no
  such prefix the result is \<^verbatim>\<open>NaN\<close>. The value is the decimal value of the prefix
  rounded to the nearest double: an infinity when it is too large, 0 when it is too small.
\<close>

definition isWhiteSpace :: "nat \<Rightarrow> bool" where
  "isWhiteSpace c \<longleftrightarrow>
     c \<in> set [0x9, 0xA, 0xB, 0xC, 0xD, 0x20, 0xA0, 0x1680, 0x2000, 0x2001, 0x2002, 0x2003,
              0x2004, 0x2005, 0x2006, 0x2007, 0x2008, 0x2009, 0x200A, 0x2028, 0x2029,
              0x202F, 0x205F, 0x3000, 0xFEFF]"

definition isDigit :: "nat \<Rightarrow> bool" where
  "isDigit c \<longleftrightarrow> 48 \<le> c \<and> c \<le> 57"

definition digitsValue :: "jsstring \<Rightarrow> nat" where
  "digitsValue ds = foldl (\<lambda>v c. 10 * v + (c - 48)) 0 ds"

text \<open>A leading sign: whether it is a minus, and the rest.\<close>

fun signPart :: "jsstring \<Rightarrow> bool \<times> jsstring" where
  "signPart [] = (False, [])"
| "signPart (c # r) = (if c = 45 then (True, r) else if c = 43 then (False, r) else (False, c # r))"

text \<open>A fraction: the digits after a leading dot, and the rest.\<close>

fun fractionPart :: "jsstring \<Rightarrow> jsstring \<times> jsstring" where
  "fractionPart [] = ([], [])"
| "fractionPart (c # r) =
     (if c = 46 then (takeWhile isDigit r, dropWhile isDigit r) else ([], c # r))"

text \<open>An exponent: \<^verbatim>\<open>e\<close> or \<^verbatim>\<open>E\<close>, a sign, at least one digit; otherwise none.\<close>

fun exponentPart :: "jsstring \<Rightarrow> bool \<times> nat" where
  "exponentPart [] = (False, 0)"
| "exponentPart (c # r) =
     (if c = 101 \<or> c = 69
      then (let (eneg, r') = signPart r; ds = takeWhile isDigit r'
            in if ds = [] then (False, 0) else (eneg, digitsValue ds))
      else (False, 0))"

definition parseFloat :: "jsstring \<Rightarrow> number" where
  "parseFloat input =
     (let (neg, s) = signPart (dropWhile isWhiteSpace input)
      in if str_startsWith s (ascii ''Infinity'')
         then (if neg then NegInfinity else PosInfinity)
         else
           (let ip = takeWhile isDigit s;
                (fp, rest) = fractionPart (dropWhile isDigit s)
            in if ip = [] \<and> fp = [] then NaN
               else
                 (let mant = real (digitsValue ip) + real (digitsValue fp) / 10 ^ length fp;
                      (eneg, e) = exponentPart rest;
                      v = (if eneg then mant / 10 ^ e else mant * 10 ^ e)
                  in round_double (if neg then - v else v))))"

text \<open>
  The first line of \<^verbatim>\<open>handleAmountChange\<close> and of \<^verbatim>\<open>updateProposedAmount\<close>:
  every code unit in the class of the full-width digits (U+FF10 to U+FF19) is replaced by
  \<^verbatim>\<open>String.fromCharCode(s.charCodeAt(0) - 0xFEE0)\<close>, then \<^verbatim>\<open>.replace(/,/g, '')\<close>
  deletes every comma. The comma of that pattern is the ASCII comma (code 44).
\<close>

definition normalized :: "jsstring \<Rightarrow> jsstring" where
  "normalized val =
     filter (\<lambda>c. c \<noteq> 44)
       (map (\<lambda>s. if 0xFF10 \<le> s \<and> s \<le> 0xFF19 then (s - 0xFEE0) mod 65536 else s) val)"

text \<open>
  \<^verbatim>\<open>handleAmountChange(val, field, updateFn)\<close> of \<^verbatim>\<open>InputSection\<close>: the result is
  the number \<^verbatim>\<open>updateFn\<close> is called with, or \<open>None\<close> when it is not called.
  \<^verbatim>\<open>field\<close> is not used by the source.
\<close>

definition handleAmountChange :: "jsstring \<Rightarrow> number option" where
  "handleAmountChange val =
     (let n = normalized val
      in if n = [] \<or> n = [45] then Some (Finite 0)
         else (let num = parseFloat n in if num \<noteq> NaN then Some num else None))"

text \<open>
  \<^verbatim>\<open>updateProposedAmount(id, val)\<close> of \<^verbatim>\<open>RebalanceSection\<close>, as a function of the
  proposed-assets ledger.
\<close>

definition updateProposedAmount :: "jsstring \<Rightarrow> jsstring \<Rightarrow> Asset list \<Rightarrow> Asset list" where
  "updateProposedAmount i val prev =
     (let num = parseFloat (normalized val)
      in if num \<noteq> NaN
         then map (\<lambda>p. if asset_id p = i then p\<lparr>asset_amount := num\<rparr> else p) prev
         else if val = []
         then map (\<lambda>p. if asset_id p = i then p\<lparr>asset_amount := Finite 0\<rparr> else p) prev
         else prev)"

section \<open>\<^verbatim>\<open>InputSection\<close>: merging an imported document\<close>

text \<open>The closed vocabularies, as code units (Hokkaido first, Okinawa last; Tokyo is
  the 13th entry, Kyoto the 26th, Osaka the 27th).\<close>

definition PREFECTURES :: "jsstring list" where
  "PREFECTURES =
     [[0x5317, 0x6D77, 0x9053],
      [0x9752, 0x68EE, 0x770C],
      [0x5CA9, 0x624B, 0x770C],
      [0x5BAE, 0x57CE, 0x770C],
      [0x79CB, 0x7530, 0x770C],
      [0x5C71, 0x5F62, 0x770C],
      [0x798F, 0x5CF6, 0x770C],
      [0x8328, 0x57CE, 0x770C],
      [0x6803, 0x6728, 0x770C],
      [0x7FA4, 0x99AC, 0x770C],
      [0x57FC, 0x7389, 0x770C],
      [0x5343, 0x8449, 0x770C],
      [0x6771, 0x4EAC, 0x90FD],
      [0x795E, 0x5948, 0x5DDD, 0x770C],
      [0x65B0, 0x6F5F, 0x770C],
      [0x5BCC, 0x5C71, 0x770C],
      [0x77F3, 0x5DDD, 0x770C],
      [0x798F, 0x4E95, 0x770C],
      [0x5C71, 0x68A8, 0x770C],
      [0x9577, 0x91CE, 0x770C],
      [0x5C90, 0x961C, 0x770C],
      [0x9759, 0x5CA1, 0x770C],
      [0x611B, 0x77E5, 0x770C],
      [0x4E09, 0x91CD, 0x770C],
      [0x6ECB, 0x8CC0, 0x770C],
      [0x4EAC, 0x90FD, 0x5E9C],
      [0x5927, 0x962A, 0x5E9C],
      [0x5175, 0x5EAB, 0x770C],
      [0x5948, 0x826F, 0x770C],
      [0x548C, 0x6B4C, 0x5C71, 0x770C],
      [0x9CE5, 0x53D6, 0x770C],
      [0x5CF6, 0x6839, 0x770C],
      [0x5CA1, 0x5C71, 0x770C],
      [0x5E83, 0x5CF6, 0x770C],
      [0x5C71, 0x53E3, 0x770C],
      [0x5FB3, 0x5CF6, 0x770C],
      [0x9999, 0x5DDD, 0x770C],
      [0x611B, 0x5A9B, 0x770C],
      [0x9AD8, 0x77E5, 0x770C],
      [0x798F, 0x5CA1, 0x770C],
      [0x4F50, 0x8CC0, 0x770C],
      [0x9577, 0x5D0E, 0x770C],
      [0x718A, 0x672C, 0x770C],
      [0x5927, 0x5206, 0x770C],
      [0x5BAE, 0x5D0E, 0x770C],
      [0x9E7F, 0x5150, 0x5CF6, 0x770C],
      [0x6C96, 0x7E04, 0x770C]]"

definition FAMILY_OPTIONS :: "jsstring list" where
  "FAMILY_OPTIONS =
     [[0x72EC, 0x8EAB],
      [0x72EC, 0x8EAB, 0x20, 0x28, 0x5B50, 0x4F9B, 0x3042, 0x308A, 0x29],
      [0x65E2, 0x5A5A, 0x20, 0x28, 0x5B50, 0x4F9B, 0x306A, 0x3057, 0x29],
      [0x65E2, 0x5A5A, 0x20, 0x28, 0x5B50, 0x4F9B, 0x3042, 0x308A, 0x29],
      [0x65E2, 0x5A5A, 0x20, 0x28, 0x5B50, 0x4F9B, 0x72EC, 0x7ACB, 0x6E08, 0x29],
      [0x9AD8, 0x9F62, 0x592B, 0x5A66, 0x306E, 0x307F],
      [0x4E8C, 0x4E16, 0x5E2F, 0x540C, 0x5C45],
      [0x305D, 0x306E, 0x4ED6]]"

text \<open>
  What \<^verbatim>\<open>parsePortfolioDocument\<close> returns is \<^verbatim>\<open>JSON.parse(text) as ParseResult\<close>.
  The interface declares \<^verbatim>\<open>assets\<close> and \<^verbatim>\<open>extractedProfile\<close>; \<^verbatim>\<open>processFile\<close>
  also reads the key \<^verbatim>\<open>profile\<close> through a cast to \<^verbatim>\<open>any\<close>, so the record has
  the three keys. The parser's prompt asks the model for the keys \<^verbatim>\<open>profile\<close> and
  \<^verbatim>\<open>assets\<close>.
\<close>

record ProfileHints =
  hint_age :: "number option"
  hint_gender :: "jsstring option"
  hint_region :: "jsstring option"
  hint_familyStructure :: "jsstring option"
  hint_riskTolerance :: "jsstring option"
  hint_goals :: "jsstring option"

record ParseResult =
  assets :: "Asset list option"
  extractedProfile :: "ProfileHints option"
  profile :: "ProfileHints option"

text \<open>\<^verbatim>\<open>if (x)\<close> for an optional number and an optional string.\<close>

fun opt_num_truthy :: "number option \<Rightarrow> bool" where
  "opt_num_truthy None = False"
| "opt_num_truthy (Some n) = num_truthy n"

fun opt_str_truthy :: "jsstring option \<Rightarrow> bool" where
  "opt_str_truthy None = False"
| "opt_str_truthy (Some s) = (s \<noteq> [])"

text \<open>
  \<^verbatim>\<open>PREFECTURES.find(pref => p.region.includes(pref) || pref.includes(p.region))\<close>
  followed by \<^verbatim>\<open>match || p.region\<close>, and the same for the family structure, which
  tests one direction only.
\<close>

definition matchRegion :: "jsstring \<Rightarrow> jsstring" where
  "matchRegion r =
     (case find (\<lambda>pref. str_includes r pref \<or> str_includes pref r) PREFECTURES of
        Some m \<Rightarrow> (if m \<noteq> [] then m else r)
      | None \<Rightarrow> r)"

definition matchFamilyStructure :: "jsstring \<Rightarrow> jsstring" where
  "matchFamilyStructure fs =
     (case find (\<lambda>f. str_includes fs f) FAMILY_OPTIONS of
        Some m \<Rightarrow> (if m \<noteq> [] then m else fs)
      | None \<Rightarrow> fs)"

text \<open>The six conditional assignments to \<^verbatim>\<open>newProfile\<close>, in the source's order.\<close>

definition applyHints :: "ProfileHints \<Rightarrow> ClientProfile \<Rightarrow> ClientProfile" where
  "applyHints p prev =
     (let p1 = (if opt_num_truthy (hint_age p) then prev\<lparr>age := the (hint_age p)\<rparr> else prev);
          p2 = (if opt_str_truthy (hint_gender p) then p1\<lparr>gender := the (hint_gender p)\<rparr> else p1);
          p3 = (if opt_str_truthy (hint_region p)
                then p2\<lparr>region := matchRegion (the (hint_region p))\<rparr> else p2);
          p4 = (if opt_str_truthy (hint_familyStructure p)
                then p3\<lparr>familyStructure := matchFamilyStructure (the (hint_familyStructure p))\<rparr>
                else p3);
          p5 = (if opt_str_truthy (hint_riskTolerance p)
                then p4\<lparr>riskTolerance := the (hint_riskTolerance p)\<rparr> else p4)
      in (if opt_str_truthy (hint_goals p) then p5\<lparr>goals := the (hint_goals p)\<rparr> else p5))"

text \<open>
  The updater \<^verbatim>\<open>processFile\<close> passes to \<^verbatim>\<open>setProfile\<close>. \<open>newAssetsWithIds\<close> are
  the extracted assets with their fresh ids, computed before the update. The hints are
  read from \<^verbatim>\<open>profile\<close>, inside a test of \<^verbatim>\<open>extractedProfile\<close>.
\<close>

definition processFile_merge :: "ParseResult \<Rightarrow> Asset list \<Rightarrow> ClientProfile \<Rightarrow> ClientProfile" where
  "processFile_merge parseResult newAssetsWithIds prev =
     (let newProfile =
            (case extractedProfile parseResult of
               None \<Rightarrow> prev
             | Some _ \<Rightarrow> (case profile parseResult of None \<Rightarrow> prev | Some p \<Rightarrow> applyHints p prev))
      in newProfile\<lparr>currentHoldings := currentHoldings prev @ newAssetsWithIds\<rparr>)"

section \<open>Example states\<close>

text \<open>The profile and the form row \<^verbatim>\<open>InputSection\<close> starts from.\<close>

definition initialProfile :: ClientProfile where
  "initialProfile =
     \<lparr>age = Finite 50,
      gender = [0x7537, 0x6027],
      region = [0x6771, 0x4EAC, 0x90FD],
      riskTolerance = [0x4E2D, 32, 40, 0x30D0, 0x30E9, 0x30F3, 0x30B9, 41],
      investmentHorizon = [0x4E2D, 0x671F, 32, 40, 51, 45, 49, 48, 0x5E74, 41],
      goals = [0x8CC7, 0x7523, 0x4FDD, 0x5168, 0x3068, 0x9069, 0x5EA6, 0x306A, 0x6210, 0x9577],
      familyStructure = [0x65E2, 0x5A5A, 32, 40, 0x5B50, 0x4F9B, 0x3042, 0x308A, 41],
      currentHoldings = []\<rparr>"

definition initialNewHolding :: Asset where
  "initialNewHolding =
     \<lparr>asset_id = [], asset_name = [], asset_code = Some [], asset_type = ascii ''Stock'',
      asset_amount = Finite 0, asset_quantity = Some (Finite 0), asset_currentPrice = None,
      asset_profitLoss = Some (Finite 0), asset_currency = ascii ''JPY'',
      asset_confidence = None, asset_description = None, asset_analysisScores = None\<rparr>"

text \<open>Three holdings entered, one amount edited, one holding deleted.\<close>

definition exampleOps :: "ledger_op list" where
  "exampleOps =
     [Add (ascii ''1700000000001'')
        (initialNewHolding\<lparr>asset_name := ascii ''A'', asset_amount := Finite 1200,
                            asset_profitLoss := Some (Finite 250)\<rparr>),
      Add (ascii ''1700000000002'')
        (initialNewHolding\<lparr>asset_name := ascii ''B'', asset_amount := Finite 700\<rparr>),
      Update (ascii ''1700000000001'') (FieldAmount (Finite 1500)),
      Add (ascii ''1700000000003'')
        (initialNewHolding\<lparr>asset_name := ascii ''C'', asset_amount := Finite 300,
                            asset_profitLoss := Some (Finite (- 50))\<rparr>),
      Remove (ascii ''1700000000002'')]"

text \<open>
  Two holdings with the amounts a user enters as \<^verbatim>\<open>0.1\<close> and \<^verbatim>\<open>0.2\<close>, the first
  with the profit/loss \<^verbatim>\<open>0.3\<close>: the doubles nearest to one, two and three tenths.
\<close>

definition tenth :: real where
  "tenth = 3602879701896397 / 2 ^ 55"

definition threeTenths :: real where
  "threeTenths = 5404319552844595 / 2 ^ 54"

definition fractionalOps :: "ledger_op list" where
  "fractionalOps =
     [Add (ascii ''1700000000001'')
        (initialNewHolding\<lparr>asset_name := ascii ''A'', asset_amount := Finite tenth,
                            asset_profitLoss := Some (Finite threeTenths)\<rparr>),
      Add (ascii ''1700000000002'')
        (initialNewHolding\<lparr>asset_name := ascii ''B'', asset_amount := Finite (2 * tenth)\<rparr>)]"

text \<open>Setting the amount of the ledger entries with a given id.\<close>

definition setAmount :: "jsstring \<Rightarrow> number \<Rightarrow> Asset list \<Rightarrow> Asset list" where
  "setAmount i v prev = map (\<lambda>p. if asset_id p = i then p\<lparr>asset_amount := v\<rparr> else p) prev"

section \<open>Slides and presentations (\<^verbatim>\<open>types.ts\<close>)\<close>

datatype SlideType =
    Title | ExecutiveSummary | AssetOverview | IndividualAnalysis | RiskAnalysis
  | ScenarioAnalysis | ConclusionPart1 | ProposalList | RebalanceProposal | ExpectedEffect
  | SelectionReason | MarketGrowth | FundamentalAnalysis | BusinessStrength | Disclaimer

text \<open>
  \<^verbatim>\<open>tableData\<close> and \<^verbatim>\<open>chartData\<close> are \<^verbatim>\<open>any[]\<close>; their rows have the keys of the
  response schema of \<^verbatim>\<open>generateInvestmentProposal\<close>, none of them required.
\<close>

record TableRow =
  row_label :: "jsstring option"
  row_metric :: "jsstring option"
  row_value1 :: "jsstring option"
  row_value2 :: "jsstring option"
  row_explanation :: "jsstring option"

record ChartPoint =
  point_name :: "jsstring option"
  point_value :: "number option"
  point_value2 :: "number option"
  point_fill :: "jsstring option"

record SourceReference =
  source_title :: jsstring
  source_url :: "jsstring option"
  source_page :: "jsstring option"
  source_snippet :: "jsstring option"

record SlideContent =
  slide_id :: jsstring
  slide_type :: SlideType
  slide_title :: jsstring
  subtitle :: "jsstring option"
  bodyText :: "jsstring option"
  bulletPoints :: "jsstring list option"
  tableData :: "TableRow list option"
  chartData :: "ChartPoint list option"
  slide_notes :: "jsstring option"
  sources :: "SourceReference list option"
  aiAnalysis :: "jsstring option"

record PresentationData =
  pres_title :: jsstring
  clientName :: jsstring
  slides :: "SlideContent list"

section \<open>The external services\<close>

text \<open>
  A value thrown by an external call is known to the sources through the three values
  the handler of \<^verbatim>\<open>generateWithRetry\<close> extracts from it (\<^verbatim>\<open>errorCode\<close>,
  \<^verbatim>\<open>errorMessage\<close>, \<^verbatim>\<open>errorStatus\<close>). The other errors are raised by the sources
  themselves: \<^verbatim>\<open>new Error("No response")\<close>, the \<^verbatim>\<open>SyntaxError\<close> of
  \<^verbatim>\<open>JSON.parse\<close>, and the \<^verbatim>\<open>TypeError\<close> of reading a property of
  \<^verbatim>\<open>undefined\<close>.
\<close>

datatype js_error =
    Thrown (errorCode: "int option") (errorMessage: jsstring) (errorStatus: "jsstring option")
  | NoResponse
  | SyntaxError
  | TypeError

text \<open>
  The value \<^verbatim>\<open>JSON.parse\<close> returns, seen at the type \<^verbatim>\<open>T\<close> the sources cast it to
  (\<^verbatim>\<open>JSON.parse(text) as T\<close>, or a declared return type). The cast checks nothing, so
  the value is either one of \<^verbatim>\<open>T\<close> or some other JSON value (\<^verbatim>\<open>null\<close>, a number,
  an object of another shape, ...), which is kept as its JSON text.
\<close>

datatype 'a parsed = OfType 'a | OtherJson jsstring

text \<open>The prompts, as the values their templates interpolate.\<close>

datatype prompt =
    GenerationPrompt ClientProfile "Asset list" jsstring
  | ResearchPrompt jsstring
  | RecommendationPrompt ClientProfile ProposalSettings
  | TextEditPrompt jsstring jsstring

record params =
  model :: jsstring
  contents :: prompt

text \<open>
  Of a response the sources read \<^verbatim>\<open>text\<close> and, in the search-based research, the
  \<^verbatim>\<open>web?.uri\<close> of each grounding chunk (no chunk list and an empty one take the same
  branches).
\<close>

record response =
  resp_text :: "jsstring option"
  groundingUris :: "jsstring option list"

text \<open>
  An interaction of the research agent: \<^verbatim>\<open>name\<close>, \<^verbatim>\<open>status\<close>, \<^verbatim>\<open>state\<close> and
  the texts of its \<^verbatim>\<open>outputs\<close> (no output list and an empty one take the same branch;
  an output without text is the empty text, which is as falsy where the report is used).
\<close>

record interaction =
  interaction_name :: jsstring
  interaction_status :: "jsstring option"
  interaction_state :: "jsstring option"
  interaction_outputs :: "jsstring list"

record researchInput =
  targetAssets :: jsstring
  input_riskTolerance :: jsstring
  input_goals :: jsstring

record interactionsClient =
  interactions_create :: "nat \<Rightarrow> researchInput \<Rightarrow> js_error + interaction"
  interactions_get :: "nat \<Rightarrow> jsstring \<Rightarrow> js_error + interaction"

text \<open>
  The world answers every external call, by returning or by throwing. Its answer may
  depend on the request and on how many external calls came before (the same request can
  fail once and succeed at the next attempt). \<^verbatim>\<open>ai.interactions\<close> may be missing.
\<close>

record world =
  generateContent :: "nat \<Rightarrow> params \<Rightarrow> js_error + response"
  interactions :: "interactionsClient option"

text \<open>The external calls made so far, oldest first.\<close>

datatype call =
    GenerateContent params
  | InteractionsCreate researchInput
  | InteractionsGet jsstring

section \<open>\<^verbatim>\<open>services/geminiService.ts\<close>\<close>

definition REPORT_MODEL :: jsstring where
  "REPORT_MODEL = ascii ''gemini-3-pro-preview''"

definition isQuotaError :: "js_error \<Rightarrow> bool" where
  "isQuotaError e =
     (case e of
        Thrown code msg status \<Rightarrow>
          code = Some 429
          \<or> str_includes msg (ascii ''429'')
          \<or> str_includes (toLowerCase msg) (ascii ''quota'')
          \<or> str_includes msg (ascii ''RESOURCE_EXHAUSTED'')
          \<or> status = Some (ascii ''RESOURCE_EXHAUSTED'')
      | _ \<Rightarrow> False)"

text \<open>
  \<^verbatim>\<open>generateWithRetry(params, retries)\<close>. The second argument of the loop function is
  the number of attempts left, \<^verbatim>\<open>retries - i\<close>: the test \<^verbatim>\<open>i < retries - 1\<close> says
  that one more is left after this one. Falling out of the loop returns \<^verbatim>\<open>undefined\<close>
  (\<open>None\<close>); that happens for \<^verbatim>\<open>retries = 0\<close> only. The waiting between attempts
  has no effect on the result.
\<close>

fun generateWithRetry_loop ::
  "world \<Rightarrow> params \<Rightarrow> nat \<Rightarrow> call list \<Rightarrow> (js_error + response option) \<times> call list" where
  "generateWithRetry_loop w p 0 calls = (Inr None, calls)"
| "generateWithRetry_loop w p (Suc k) calls =
     (case generateContent w (length calls) p of
        Inr r \<Rightarrow> (Inr (Some r), calls @ [GenerateContent p])
      | Inl e \<Rightarrow>
          if isQuotaError e \<and> 0 < k
          then generateWithRetry_loop w p k (calls @ [GenerateContent p])
          else (Inl e, calls @ [GenerateContent p]))"

text \<open>The default of \<^verbatim>\<open>retries\<close> is 5 in this file.\<close>

definition generateWithRetry ::
  "world \<Rightarrow> params \<Rightarrow> call list \<Rightarrow> (js_error + response option) \<times> call list" where
  "generateWithRetry w p calls = generateWithRetry_loop w p 5 calls"

text \<open>\<^verbatim>\<open>response.text\<close>, where \<^verbatim>\<open>response\<close> may be \<^verbatim>\<open>undefined\<close>.\<close>

fun response_text :: "response option \<Rightarrow> js_error + jsstring option" where
  "response_text None = Inl TypeError"
| "response_text (Some r) = Inr (resp_text r)"

text \<open>\<^verbatim>\<open>xs.join(sep)\<close>.\<close>

fun str_join :: "jsstring \<Rightarrow> jsstring list \<Rightarrow> jsstring" where
  "str_join sep [] = []"
| "str_join sep [x] = x"
| "str_join sep (x # y # ys) = x @ sep @ str_join sep (y # ys)"

text \<open>\<^verbatim>\<open>s || d\<close> for an optional string.\<close>

fun str_or :: "jsstring option \<Rightarrow> jsstring \<Rightarrow> jsstring" where
  "str_or None d = d"
| "str_or (Some s) d = (if s \<noteq> [] then s else d)"

definition getMockProposal :: PresentationData where
  "getMockProposal =
     \<lparr>pres_title = [0x8CC7, 0x7523, 0x904B, 0x7528, 0x63D0, 0x6848, 0x66F8],
      clientName = [0x304A, 0x5BA2, 0x69D8],
      slides =
        [\<lparr>slide_id = ascii ''1'', slide_type = Title,
          slide_title = [0x8CC7, 0x7523, 0x904B, 0x7528, 0x5206, 0x6790, 0x30EC, 0x30DD, 0x30FC, 0x30C8],
          subtitle = Some [0x30B7, 0x30B9, 0x30C6, 0x30E0, 0x30A8, 0x30E9, 0x30FC, 0x304C, 0x767A,
                           0x751F, 0x3057, 0x307E, 0x3057, 0x305F],
          bodyText = None, bulletPoints = None, tableData = None, chartData = None,
          slide_notes = None, sources = None, aiAnalysis = None\<rparr>]\<rparr>"

subsection \<open>The research phase: the agent and its polling loop\<close>






subsection \<open>The generation phase\<close>

definition unavailableText :: jsstring where
  "unavailableText = ascii ''Deep research data unavailable. Please use internal knowledge.''"

text \<open>\<^verbatim>\<open>deepResearchReport || "Deep research data unavailable. ..."\<close>, as the prompt
  embeds it.\<close>

definition researchContext :: "jsstring \<Rightarrow> jsstring" where
  "researchContext deepResearchReport = str_or (Some deepResearchReport) unavailableText"

definition generationParams :: "ClientProfile \<Rightarrow> Asset list \<Rightarrow> jsstring \<Rightarrow> params" where
  "generationParams prof proposedAssets deepResearchReport =
     \<lparr>model = REPORT_MODEL,
      contents = GenerationPrompt prof proposedAssets (researchContext deepResearchReport)\<rparr>"

text \<open>
  The body of the last \<^verbatim>\<open>try\<close> block, given what \<^verbatim>\<open>generateWithRetry\<close> gave.
  \<open>parse\<close> is \<^verbatim>\<open>JSON.parse(text) as PresentationData\<close>: \<open>None\<close> where
  \<^verbatim>\<open>JSON.parse\<close> throws, and otherwise the value parsed, which is returned as it is,
  whether it is a document or not.
\<close>

definition readProposal ::
  "(jsstring \<Rightarrow> PresentationData parsed option) \<Rightarrow> js_error + response option
     \<Rightarrow> js_error + PresentationData parsed" where
  "readProposal parse res =
     (case res of
        Inl e \<Rightarrow> Inl e
      | Inr r \<Rightarrow>
          (case response_text r of
             Inl e \<Rightarrow> Inl e
           | Inr t \<Rightarrow>
               (case t of
                  None \<Rightarrow> Inl NoResponse
                | Some s \<Rightarrow>
                    (if s = [] then Inl NoResponse
                     else (case parse s of None \<Rightarrow> Inl SyntaxError | Some d \<Rightarrow> Inr d)))))"

text \<open>The \<^verbatim>\<open>catch\<close> of the last block: any error becomes the fallback document.\<close>

definition orMockProposal ::
  "js_error + PresentationData parsed \<Rightarrow> js_error + PresentationData parsed" where
  "orMockProposal r = (case r of Inl e \<Rightarrow> Inr (OfType getMockProposal) | Inr d \<Rightarrow> Inr d)"


subsection \<open>Recommendations and text edits\<close>

text \<open>
  \<^verbatim>\<open>getAssetRecommendations\<close>: \<open>parseAssets\<close> is \<^verbatim>\<open>JSON.parse\<close> on the response
  text (or on \<^verbatim>\<open>"[]"\<close> when there is none), whose value is returned as it is. At the
  declared type \<^verbatim>\<open>Asset[]\<close> that value is an array, whose elements are read as assets
  (\<open>OfType\<close>), or a value that is not an array (\<open>OtherJson\<close>). The \<^verbatim>\<open>catch\<close>
  returns the empty list.
\<close>

definition recommendationParams :: "ClientProfile \<Rightarrow> ProposalSettings \<Rightarrow> params" where
  "recommendationParams prof settings =
     \<lparr>model = REPORT_MODEL, contents = RecommendationPrompt prof settings\<rparr>"

definition readRecommendations ::
  "(jsstring \<Rightarrow> Asset list parsed option) \<Rightarrow> js_error + response option
     \<Rightarrow> js_error + Asset list parsed" where
  "readRecommendations parseAssets res =
     (case res of
        Inl e \<Rightarrow> Inl e
      | Inr r \<Rightarrow>
          (case response_text r of
             Inl e \<Rightarrow> Inl e
           | Inr t \<Rightarrow>
               (case parseAssets (str_or t (ascii ''[]'')) of
                  None \<Rightarrow> Inl SyntaxError
                | Some recs \<Rightarrow> Inr recs)))"

definition getAssetRecommendations ::
  "world \<Rightarrow> (jsstring \<Rightarrow> Asset list parsed option) \<Rightarrow> ClientProfile \<Rightarrow> ProposalSettings
     \<Rightarrow> call list \<Rightarrow> (js_error + Asset list parsed) \<times> call list" where
  "getAssetRecommendations w parseAssets prof settings calls =
     (let (res, calls1) = generateWithRetry w (recommendationParams prof settings) calls
      in (case readRecommendations parseAssets res of
            Inl e \<Rightarrow> (Inr (OfType []), calls1)
          | Inr recs \<Rightarrow> (Inr recs, calls1)))"

text \<open>\<^verbatim>\<open>aiTextEdit\<close>: \<^verbatim>\<open>response.text || currentText\<close>, and \<^verbatim>\<open>currentText\<close> on
  any error.\<close>

definition aiTextEdit :: "world \<Rightarrow> jsstring \<Rightarrow> jsstring \<Rightarrow> call list \<Rightarrow> jsstring \<times> call list" where
  "aiTextEdit w currentText instruction calls =
     (let (res, calls1) =
            generateWithRetry w
              \<lparr>model = REPORT_MODEL, contents = TextEditPrompt currentText instruction\<rparr> calls
      in (case res of
            Inl e \<Rightarrow> (currentText, calls1)
          | Inr r \<Rightarrow>
              (case response_text r of
                 Inl e \<Rightarrow> (currentText, calls1)
               | Inr t \<Rightarrow> (str_or t currentText, calls1))))"

section \<open>The second copy of the service (\<^verbatim>\<open>src/unnamed/part_001\<close>)\<close>

text \<open>
  The sources hold a second version of the service file, whose research phase is one
  search-grounded request instead of the agent. Its functions carry the suffix
  \<open>_part001\<close>. Its \<^verbatim>\<open>generateWithRetry\<close> is the same loop with 3 attempts, and its
  \<^verbatim>\<open>getMockProposal\<close> is the same document.
\<close>

definition FAST_MODEL :: jsstring where
  "FAST_MODEL = ascii ''gemini-3-flash-preview''"

definition generateWithRetry_part001 ::
  "world \<Rightarrow> params \<Rightarrow> call list \<Rightarrow> (js_error + response option) \<times> call list" where
  "generateWithRetry_part001 w p calls = generateWithRetry_loop w p 3 calls"

definition researchFailedText :: jsstring where
  "researchFailedText =
     ascii ''Deep research could not be completed due to network or API issues. Using internal knowledge base.''"

definition researchParams :: "ClientProfile \<Rightarrow> Asset list \<Rightarrow> params" where
  "researchParams prof proposedAssets =
     \<lparr>model = FAST_MODEL,
      contents =
        ResearchPrompt
          (str_join (ascii '', '')
             (map (\<lambda>a. asset_name a @ ascii '' ('' @ str_or (asset_code a) [] @ ascii '')'')
                proposedAssets))\<rparr>"

text \<open>
  The source links: the first five truthy \<^verbatim>\<open>web?.uri\<close> of the grounding chunks, under
  a heading, when there is at least one.
\<close>

definition sourceLinks :: "response \<Rightarrow> jsstring" where
  "sourceLinks r =
     (let urls = take 5 (map the (filter opt_str_truthy (groundingUris r)))
      in if urls \<noteq> [] then [10, 10] @ ascii ''Referenced Sources:'' @ [10] @ str_join [10] urls
         else [])"

definition performDeepResearch ::
  "world \<Rightarrow> ClientProfile \<Rightarrow> Asset list \<Rightarrow> call list \<Rightarrow> jsstring \<times> call list" where
  "performDeepResearch w prof proposedAssets calls =
     (let (res, calls1) = generateWithRetry_part001 w (researchParams prof proposedAssets) calls
      in (case res of
            Inl e \<Rightarrow> (researchFailedText, calls1)
          | Inr None \<Rightarrow> (researchFailedText, calls1)
          | Inr (Some r) \<Rightarrow> (str_or (resp_text r) [] @ sourceLinks r, calls1)))"

text \<open>
  \<^verbatim>\<open>generateInvestmentProposal\<close> of this version. \<^verbatim>\<open>performDeepResearch\<close> throws
  nothing, so the \<^verbatim>\<open>catch\<close> around its call has no case. The rest is the generation
  phase of the first version, with 3 attempts.
\<close>

definition generateInvestmentProposal_part001 ::
  "world \<Rightarrow> (jsstring \<Rightarrow> PresentationData parsed option) \<Rightarrow> ClientProfile \<Rightarrow> Asset list
     \<Rightarrow> ProposalSettings \<Rightarrow> call list \<Rightarrow> (js_error + PresentationData parsed) \<times> call list" where
  "generateInvestmentProposal_part001 w parse prof proposedAssets settings calls =
     (let (deepResearchReport, calls1) = performDeepResearch w prof proposedAssets calls;
          (res, calls2) =
            generateWithRetry_part001 w (generationParams prof proposedAssets deepResearchReport) calls1
      in (orMockProposal (readProposal parse res), calls2))"

text \<open>\<^verbatim>\<open>getAssetRecommendations\<close> of this version: the \<^verbatim>\<open>catch\<close> rethrows.\<close>

definition recommendationParams_part001 :: "ClientProfile \<Rightarrow> ProposalSettings \<Rightarrow> params" where
  "recommendationParams_part001 prof settings =
     \<lparr>model = FAST_MODEL, contents = RecommendationPrompt prof settings\<rparr>"

definition getAssetRecommendations_part001 ::
  "world \<Rightarrow> (jsstring \<Rightarrow> Asset list parsed option) \<Rightarrow> ClientProfile \<Rightarrow> ProposalSettings
     \<Rightarrow> call list \<Rightarrow> (js_error + Asset list parsed) \<times> call list" where
  "getAssetRecommendations_part001 w parseAssets prof settings calls =
     (let (res, calls1) = generateWithRetry_part001 w (recommendationParams_part001 prof settings) calls
      in (readRecommendations parseAssets res, calls1))"

section \<open>\<^verbatim>\<open>RebalanceSection\<close>\<close>

record RebalanceState =
  recommendations :: "Asset list"
  proposedAssets :: "Asset list"
  loadingRecs :: bool
  error :: "jsstring option"

definition fetchFailedMessage :: jsstring where
  "fetchFailedMessage =
     [65, 73, 0x63A8, 0x5968, 0x306E, 0x53D6, 0x5F97, 0x306B, 0x5931, 0x6557, 0x3057, 0x307E,
      0x3057, 0x305F, 0x3002, 0x3057, 0x3070, 0x3089, 0x304F, 0x5F85, 0x3063, 0x3066, 0x304B,
      0x3089, 0x518D, 0x8A66, 0x884C, 0x3057, 0x3066, 0x304F, 0x3060, 0x3055, 0x3044, 0x3002]"

text \<open>
  \<^verbatim>\<open>fetchRecs\<close>, given the outcome of \<^verbatim>\<open>getAssetRecommendations\<close>. \<open>random k\<close>
  is the text of the k-th \<^verbatim>\<open>Math.random()\<close>, one per recommendation. On a value that
  is not an array \<^verbatim>\<open>recs.map\<close> throws a \<^verbatim>\<open>TypeError\<close> inside the \<^verbatim>\<open>try\<close>, so
  the \<^verbatim>\<open>catch\<close> runs as it does for an error thrown by the service.
\<close>

definition fetchRecs ::
  "js_error + Asset list parsed \<Rightarrow> (nat \<Rightarrow> jsstring) \<Rightarrow> RebalanceState \<Rightarrow> RebalanceState" where
  "fetchRecs outcome random st =
     (case outcome of
        Inr (OfType recs) \<Rightarrow>
          st\<lparr>recommendations :=
               map (\<lambda>(k, r). r\<lparr>asset_id := ascii ''rec-'' @ random k\<rparr>) (enumerate 0 recs),
             loadingRecs := False, error := None\<rparr>
      | Inr (OtherJson j) \<Rightarrow> st\<lparr>loadingRecs := False, error := Some fetchFailedMessage\<rparr>
      | Inl e \<Rightarrow> st\<lparr>loadingRecs := False, error := Some fetchFailedMessage\<rparr>)"

text \<open>
  \<^verbatim>\<open>addToProposal\<close>, on the ledger of the current render; \<open>random\<close> is the text of
  \<^verbatim>\<open>Math.random()\<close>. The amount is set whatever the candidate carries.
\<close>

definition addToProposal :: "jsstring \<Rightarrow> Asset \<Rightarrow> Asset list \<Rightarrow> Asset list" where
  "addToProposal random asset ledger =
     ledger @ [asset\<lparr>asset_id := ascii ''prop-'' @ random, asset_amount := Finite 1000000\<rparr>]"

text \<open>An entry of the list of popular assets (\<^verbatim>\<open>StockDefinition\<close>), as
  \<^verbatim>\<open>selectManualAsset\<close> reads it.\<close>

record StockDefinition =
  stock_name :: jsstring
  stock_code :: jsstring
  stock_type :: jsstring
  stock_currency :: jsstring

text \<open>\<^verbatim>\<open>selectManualAsset\<close>; \<open>now\<close> is the text of \<^verbatim>\<open>Date.now()\<close>.\<close>

definition selectManualAsset :: "jsstring \<Rightarrow> StockDefinition \<Rightarrow> Asset list \<Rightarrow> Asset list" where
  "selectManualAsset now stock ledger =
     ledger @
       [\<lparr>asset_id = ascii ''manual-'' @ now, asset_name = stock_name stock,
         asset_code = Some (stock_code stock), asset_type = stock_type stock,
         asset_amount = Finite 1000000, asset_quantity = None, asset_currentPrice = None,
         asset_profitLoss = None, asset_currency = stock_currency stock,
         asset_confidence = Some (Finite 1),
         asset_description = Some [0x624B, 0x52D5, 0x8FFD, 0x52A0],
         asset_analysisScores = None\<rparr>]"

text \<open>\<^verbatim>\<open>removeProposed\<close>.\<close>

definition removeProposed :: "jsstring \<Rightarrow> Asset list \<Rightarrow> Asset list" where
  "removeProposed i prev = filter (\<lambda>p. asset_id p \<noteq> i) prev"

section \<open>\<^verbatim>\<open>SlideEditor\<close>\<close>

text \<open>
  \<^verbatim>\<open>handleChatSubmit\<close>. The result is the document passed to \<^verbatim>\<open>onUpdate\<close>,
  \<open>Inr None\<close> when the handler returns before (empty input), and \<open>Inl TypeError\<close>
  when \<^verbatim>\<open>data.slides[currentSlideIndex]\<close> is \<^verbatim>\<open>undefined\<close>, whose \<^verbatim>\<open>bodyText\<close> the
  handler reads.
\<close>

definition handleChatSubmit ::
  "world \<Rightarrow> PresentationData \<Rightarrow> nat \<Rightarrow> jsstring \<Rightarrow> call list
     \<Rightarrow> (js_error + PresentationData option) \<times> call list" where
  "handleChatSubmit w data currentSlideIndex chatInput calls =
     (if chatInput = [] then (Inr None, calls)
      else if currentSlideIndex \<ge> length (slides data) then (Inl TypeError, calls)
      else
        (let currentSlide = slides data ! currentSlideIndex;
             (updatedText, calls1) = aiTextEdit w (str_or (bodyText currentSlide) []) chatInput calls;
             newSlides = (slides data)[currentSlideIndex := currentSlide\<lparr>bodyText := Some updatedText\<rparr>]
         in (Inr (Some (data\<lparr>slides := newSlides\<rparr>)), calls1)))"

section \<open>\<^verbatim>\<open>SlideRenderer\<close>: the \<^verbatim>\<open>RebalanceProposal\<close> slide\<close>

definition sellMarker :: jsstring where
  "sellMarker = [0x58F2, 0x5374]"

definition buyMarker :: jsstring where
  "buyMarker = [0x8CFC, 0x5165]"

text \<open>
  The two filter predicates. \<^verbatim>\<open>r.label.includes(...)\<close> is evaluated first and throws
  a \<^verbatim>\<open>TypeError\<close> when the row has no label.
\<close>

definition isSellRow :: "TableRow \<Rightarrow> js_error + bool" where
  "isSellRow r =
     (case row_label r of
        None \<Rightarrow> Inl TypeError
      | Some l \<Rightarrow>
          Inr (str_includes l sellMarker
               \<or> (opt_str_truthy (row_value1 r) \<and> str_startsWith (the (row_value1 r)) [45])))"

definition isBuyRow :: "TableRow \<Rightarrow> js_error + bool" where
  "isBuyRow r =
     (case row_label r of
        None \<Rightarrow> Inl TypeError
      | Some l \<Rightarrow>
          Inr (str_includes l buyMarker
               \<or> (opt_str_truthy (row_value1 r) \<and> \<not> str_startsWith (the (row_value1 r)) [45])))"

text \<open>\<^verbatim>\<open>rows.filter(pred)\<close> for a predicate that may throw: the first throw ends it.\<close>

fun filterRows :: "(TableRow \<Rightarrow> js_error + bool) \<Rightarrow> TableRow list \<Rightarrow> js_error + TableRow list" where
  "filterRows pred [] = Inr []"
| "filterRows pred (r # rs) =
     (case pred r of
        Inl e \<Rightarrow> Inl e
      | Inr b \<Rightarrow>
          (case filterRows pred rs of
             Inl e \<Rightarrow> Inl e
           | Inr kept \<Rightarrow> Inr (if b then r # kept else kept)))"

text \<open>\<^verbatim>\<open>rows.some(pred)\<close>: stops at the first row that satisfies the predicate.\<close>

fun someRow :: "(TableRow \<Rightarrow> js_error + bool) \<Rightarrow> TableRow list \<Rightarrow> js_error + bool" where
  "someRow pred [] = Inr False"
| "someRow pred (r # rs) =
     (case pred r of
        Inl e \<Rightarrow> Inl e
      | Inr b \<Rightarrow> (if b then Inr True else someRow pred rs))"

text \<open>
  What the sell column and the buy column list (\<^verbatim>\<open>slide.tableData?.filter(...)\<close>:
  nothing without table data), and whether the notice that nothing is to be sold is
  shown (\<^verbatim>\<open>!slide.tableData?.some(...)\<close>).
\<close>

definition sellRows :: "SlideContent \<Rightarrow> js_error + TableRow list" where
  "sellRows slide = (case tableData slide of None \<Rightarrow> Inr [] | Some rows \<Rightarrow> filterRows isSellRow rows)"

definition buyRows :: "SlideContent \<Rightarrow> js_error + TableRow list" where
  "buyRows slide = (case tableData slide of None \<Rightarrow> Inr [] | Some rows \<Rightarrow> filterRows isBuyRow rows)"

definition showNothingToSell :: "SlideContent \<Rightarrow> js_error + bool" where
  "showNothingToSell slide =
     (case tableData slide of
        None \<Rightarrow> Inr True
      | Some rows \<Rightarrow> (case someRow isSellRow rows of Inl e \<Rightarrow> Inl e | Inr b \<Rightarrow> Inr (\<not> b)))"

section \<open>Example worlds\<close>



definition networkError :: js_error where
  "networkError = Thrown None (ascii ''Failed to fetch'') None"

text \<open>A world without the interactions API in which every request throws.\<close>

definition offlineWorld :: world where
  "offlineWorld = \<lparr>generateContent = (\<lambda>t p. Inl networkError), interactions = None\<rparr>"









text \<open>A document with two slides, the text the service returns for it, and a decoder
  that knows this one text.\<close>

definition sampleDocument :: PresentationData where
  "sampleDocument =
     \<lparr>pres_title = ascii ''Proposal'', clientName = ascii ''Client'',
      slides =
        [\<lparr>slide_id = ascii ''s1'', slide_type = Title, slide_title = ascii ''Cover'',
          subtitle = Some (ascii ''2024''), bodyText = None, bulletPoints = None,
          tableData = None, chartData = None, slide_notes = None, sources = None,
          aiAnalysis = None\<rparr>,
         \<lparr>slide_id = ascii ''s2'', slide_type = ExecutiveSummary,
          slide_title = ascii ''Summary'', subtitle = None,
          bodyText = Some (ascii ''Hold.''), bulletPoints = Some [ascii ''a'', ascii ''b''],
          tableData = None, chartData = None, slide_notes = None, sources = None,
          aiAnalysis = None\<rparr>]\<rparr>"

definition sampleText :: jsstring where
  "sampleText = ascii ''{sample document}''"

definition decodeSample :: "jsstring \<Rightarrow> PresentationData parsed option" where
  "decodeSample s = (if s = sampleText then Some (OfType sampleDocument) else None)"



text \<open>A world in which the generation request succeeds and every other request
  throws.\<close>

definition generationOnlyWorld :: world where
  "generationOnlyWorld =
     \<lparr>generateContent =
        (\<lambda>t p. case contents p of
                  GenerationPrompt prof proposed research \<Rightarrow>
                    Inr \<lparr>resp_text = Some sampleText, groundingUris = []\<rparr>
                | _ \<Rightarrow> Inl networkError),
      interactions = None\<rparr>"

section \<open>Example states of the rebalance step\<close>

text \<open>A decoder of recommendation lists that rejects every text, a recommendation as
  the service returns it (no id, no amount of its own, no confidence), a popular asset,
  and a state of the rebalance step with one recommendation and one proposed asset.\<close>

definition rejectAssets :: "jsstring \<Rightarrow> Asset list parsed option" where
  "rejectAssets s = None"

definition sampleRecommendation :: Asset where
  "sampleRecommendation =
     \<lparr>asset_id = [], asset_name = ascii ''Toyota'', asset_code = Some (ascii ''7203''),
      asset_type = ascii ''Stock'', asset_amount = Finite 0, asset_quantity = None,
      asset_currentPrice = Some (Finite 2500), asset_profitLoss = None,
      asset_currency = ascii ''JPY'', asset_confidence = None, asset_description = None,
      asset_analysisScores =
        Some \<lparr>suitability = Finite 8, market = Finite 9, growth = Finite 7,
              valuation = Finite 8, risk = Finite 6\<rparr>\<rparr>"

definition sampleStock :: StockDefinition where
  "sampleStock =
     \<lparr>stock_name = ascii ''Toyota'', stock_code = ascii ''7203'',
      stock_type = ascii ''Stock'', stock_currency = ascii ''JPY''\<rparr>"

definition sampleRebalanceState :: RebalanceState where
  "sampleRebalanceState =
     \<lparr>recommendations = [sampleRecommendation\<lparr>asset_id := ascii ''rec-0.25''\<rparr>],
      proposedAssets =
        [sampleRecommendation\<lparr>asset_id := ascii ''prop-0.5'', asset_amount := Finite 1000000\<rparr>],
      loadingRecs = True, error = None\<rparr>"

section \<open>The two groups of the rebalance slide\<close>

text \<open>The two groups as predicates on a row that has a label: whether the label
  contains a marker, whether the primary value is present, and whether it is negative
  (starts with a minus sign).\<close>

definition labelContains :: "TableRow \<Rightarrow> jsstring \<Rightarrow> bool" where
  "labelContains r m = (case row_label r of None \<Rightarrow> False | Some l \<Rightarrow> str_includes l m)"

definition hasValue :: "TableRow \<Rightarrow> bool" where
  "hasValue r = opt_str_truthy (row_value1 r)"

definition negativeValue :: "TableRow \<Rightarrow> bool" where
  "negativeValue r = (hasValue r \<and> str_startsWith (the (row_value1 r)) [45])"

definition inSellGroup :: "TableRow \<Rightarrow> bool" where
  "inSellGroup r = (labelContains r sellMarker \<or> negativeValue r)"

definition inBuyGroup :: "TableRow \<Rightarrow> bool" where
  "inBuyGroup r = (labelContains r buyMarker \<or> (hasValue r \<and> \<not> negativeValue r))"

text \<open>A rebalance slide with four rows: a row labelled as a sale with a positive value,
  an unmarked row with a negative value, a row labelled as a purchase, and an unmarked row
  without value.\<close>

definition saleRow :: TableRow where
  "saleRow = \<lparr>row_label = Some (sellMarker @ ascii '': A''), row_metric = None,
               row_value1 = Some (ascii ''100''), row_value2 = None, row_explanation = None\<rparr>"

definition negativeRow :: TableRow where
  "negativeRow = \<lparr>row_label = Some (ascii ''B''), row_metric = None,
               row_value1 = Some (ascii ''-200''), row_value2 = None, row_explanation = None\<rparr>"

definition purchaseRow :: TableRow where
  "purchaseRow = \<lparr>row_label = Some (buyMarker @ ascii '': C''), row_metric = None,
               row_value1 = Some (ascii ''300''), row_value2 = None, row_explanation = None\<rparr>"

definition emptyRow :: TableRow where
  "emptyRow = \<lparr>row_label = Some (ascii ''D''), row_metric = None,
               row_value1 = None, row_value2 = None, row_explanation = None\<rparr>"

definition rebalanceSlide :: "TableRow list \<Rightarrow> SlideContent" where
  "rebalanceSlide rows =
     \<lparr>slide_id = ascii ''s9'', slide_type = RebalanceProposal, slide_title = ascii ''Plan'',
      subtitle = None, bodyText = None, bulletPoints = None, tableData = Some rows,
      chartData = None, slide_notes = None, sources = None, aiAnalysis = None\<rparr>"

section \<open>Failing rewrites and an example import\<close>

text \<open>The rewrite request of \<^verbatim>\<open>aiTextEdit\<close> fails (it throws, or returns nothing) or
  returns no text or the empty text.\<close>

definition rewriteFailsOrEmpty :: "world \<Rightarrow> jsstring \<Rightarrow> jsstring \<Rightarrow> call list \<Rightarrow> bool" where
  "rewriteFailsOrEmpty w currentText instruction calls =
     (case fst (generateWithRetry w
                  \<lparr>model = REPORT_MODEL, contents = TextEditPrompt currentText instruction\<rparr> calls) of
        Inl e \<Rightarrow> True
      | Inr None \<Rightarrow> True
      | Inr (Some r) \<Rightarrow> str_or (resp_text r) [] = [])"

text \<open>
  An import result as the parser's prompt asks for it: the hints under the key
  \<^verbatim>\<open>profile\<close>, here a region hint only (the first two characters of the 13th
  prefecture, Tokyo), and no key \<^verbatim>\<open>extractedProfile\<close>. The profile it is merged into
  has the 27th prefecture (Osaka) as its region.
\<close>

definition noHints :: ProfileHints where
  "noHints =
     \<lparr>hint_age = None, hint_gender = None, hint_region = None, hint_familyStructure = None,
      hint_riskTolerance = None, hint_goals = None\<rparr>"

definition tokyoHint :: ProfileHints where
  "tokyoHint = noHints\<lparr>hint_region := Some [0x6771, 0x4EAC]\<rparr>"

definition importedResult :: ParseResult where
  "importedResult = \<lparr>assets = Some [], extractedProfile = None, profile = Some tokyoHint\<rparr>"

definition osakaProfile :: ClientProfile where
  "osakaProfile = initialProfile\<lparr>region := [0x5927, 0x962A, 0x5E9C]\<rparr>"

text \<open>A world in which the research request returns an empty text without sources and
  the generation request succeeds.\<close>

definition emptyResearchWorld :: world where
  "emptyResearchWorld =
     \<lparr>generateContent =
        (\<lambda>t p. case contents p of
                  GenerationPrompt prof proposed research \<Rightarrow>
                    Inr \<lparr>resp_text = Some sampleText, groundingUris = []\<rparr>
                | ResearchPrompt names \<Rightarrow> Inr \<lparr>resp_text = Some [], groundingUris = []\<rparr>
                | _ \<Rightarrow> Inl networkError),
      interactions = None\<rparr>"

section \<open>Proposal settings: toggling a type\<close>

text \<open>
  Claim C8. Toggling a type that is on (count above 0) sets its count to 0 and leaves
  the sub-category selections alone; toggling it again turns it on (count 1), and the
  selection of every type is what it was before the two toggles.
\<close>

theorem toggle_off_on_keeps_subcategories:
  assumes "num_gt (num_or (proposalCounts s ty) (Finite 0)) (Finite 0)"
  shows "proposalCounts (toggleProposalType ty s) ty = Some (Finite 0)
       \<and> proposalDetails (toggleProposalType ty s) = proposalDetails s
       \<and> selectedDetails (toggleProposalType ty s) ty = selectedDetails s ty
       \<and> proposalCounts (toggleProposalType ty (toggleProposalType ty s)) ty = Some (Finite 1)
       \<and> proposalDetails (toggleProposalType ty (toggleProposalType ty s)) = proposalDetails s
       \<and> selectedDetails (toggleProposalType ty (toggleProposalType ty s)) ty' = selectedDetails s ty'"
  using assms by (simp add: toggleProposalType_def selectedDetails_def Let_def)

theorem toggle_off_on_keeps_subcategories_witness:
  "selectedDetails (toggleSubCategory (ascii ''Stock'') [0x534A, 0x5C0E, 0x4F53] initialSettings)
      (ascii ''Stock'') = [[0x534A, 0x5C0E, 0x4F53]]
   \<and> proposalCounts
        (toggleProposalType (ascii ''Stock'')
           (toggleSubCategory (ascii ''Stock'') [0x534A, 0x5C0E, 0x4F53] initialSettings))
        (ascii ''Stock'') = Some (Finite 0)
   \<and> selectedDetails
        (toggleProposalType (ascii ''Stock'')
           (toggleProposalType (ascii ''Stock'')
              (toggleSubCategory (ascii ''Stock'') [0x534A, 0x5C0E, 0x4F53] initialSettings)))
        (ascii ''Stock'') = [[0x534A, 0x5C0E, 0x4F53]]"
proof -
  let ?s = "toggleSubCategory (ascii ''Stock'') [0x534A, 0x5C0E, 0x4F53] initialSettings"
  have on: "num_gt (num_or (proposalCounts ?s (ascii ''Stock'')) (Finite 0)) (Finite 0)"
    by (simp add: toggleSubCategory_def initialSettings_def selectedDetails_def ascii_def Let_def)
  have sel: "selectedDetails ?s (ascii ''Stock'') = [[0x534A, 0x5C0E, 0x4F53]]"
    by (simp add: toggleSubCategory_def initialSettings_def selectedDetails_def Let_def)
  from toggle_off_on_keeps_subcategories [OF on, of "ascii ''Stock''"] sel
  show ?thesis by simp
qed

section \<open>Rounding to doubles\<close>

lemma round_half_even_of_int: "round_half_even (of_int n) = n"
  by (simp add: round_half_even_def)

lemma binade_up_lower: "1 \<le> x \<Longrightarrow> 0 \<le> binade_up k x \<and> 2 powi (binade_up k x) \<le> x"
proof (induction k arbitrary: x)
  case 0
  then show ?case by simp
next
  case (Suc k)
  show ?case
  proof (cases "x < 2")
    case True
    with Suc.prems show ?thesis by simp
  next
    case False
    then have "1 \<le> x / 2" by simp
    from Suc.IH [OF this] have nn: "0 \<le> binade_up k (x / 2)"
      and le: "2 powi (binade_up k (x / 2)) \<le> x / 2" by simp_all
    from nn have "(2::real) powi (binade_up k (x / 2) + 1) = 2 powi (binade_up k (x / 2)) * 2"
      by (simp add: power_int_add)
    with le nn False show ?thesis by simp
  qed
qed

lemma binade_up_upper: "x < 2 ^ Suc j \<Longrightarrow> binade_up k x \<le> int j"
proof (induction k arbitrary: x j)
  case 0
  then show ?case by simp
next
  case (Suc k)
  show ?case
  proof (cases "x < 2")
    case True
    then show ?thesis by simp
  next
    case False
    with Suc.prems obtain j' where j: "j = Suc j'" by (cases j) auto
    with Suc.prems have "x / 2 < 2 ^ Suc j'" by simp
    from Suc.IH [OF this] j False show ?thesis by simp
  qed
qed

text \<open>A whole number of magnitude at most \<^verbatim>\<open>2^53\<close> is a double: rounding keeps it.\<close>

lemma round_double_of_int:
  assumes "\<bar>n\<bar> \<le> 2 ^ 53"
  shows "round_double (of_int n) = Finite (of_int n)"
proof (cases "n = 0")
  case True
  then show ?thesis by (simp add: round_double_def)
next
  case False
  let ?x = "of_int n :: real"
  have ax: "\<bar>?x\<bar> = of_int \<bar>n\<bar>" by simp
  from False have "1 \<le> \<bar>n\<bar>" by simp
  then have one: "1 \<le> \<bar>?x\<bar>" unfolding ax by (simp only: of_int_1_le_iff)
  let ?e = "binade_up 1024 \<bar>?x\<bar>"
  have b: "binade ?x = ?e" using one by (simp add: binade_def)
  from binade_up_lower [OF one] have e0: "0 \<le> ?e" and lo: "2 powi ?e \<le> \<bar>?x\<bar>" by simp_all
  from assms have "(of_int \<bar>n\<bar> :: real) \<le> of_int (2 ^ 53)" by (simp only: of_int_le_iff)
  then have le53: "\<bar>?x\<bar> \<le> 2 ^ 53" unfolding ax by simp
  then have small: "\<bar>?x\<bar> < 2 ^ Suc 53" by simp
  from binade_up_upper [OF small] have e53: "?e \<le> 53" by simp
  let ?q = "(2::real) powi (?e - 52)"
  have qpos: "?q > 0" by simp
  have "\<exists>m::int. ?x / ?q = of_int m"
  proof (cases "?e \<le> 52")
    case True
    then have "?q = inverse (2 ^ nat (52 - ?e))"
      by (simp add: power_int_def power_inverse power_one_over inverse_eq_divide)
    then have "?x / ?q = of_int (n * 2 ^ nat (52 - ?e))"
      by (simp add: field_simps)
    then show ?thesis by blast
  next
    case False
    with e53 have e: "?e = 53" by simp
    with lo have "2 ^ 53 \<le> \<bar>?x\<bar>" by simp
    with le53 have "\<bar>?x\<bar> = 2 ^ 53" by simp
    then have "(of_int \<bar>n\<bar> :: real) = of_int (2 ^ 53)" unfolding ax by simp
    then have "\<bar>n\<bar> = 2 ^ 53" by (simp only: of_int_eq_iff)
    then have "n = 2 * (if n < 0 then - (2 ^ 52) else 2 ^ 52)" by (simp split: if_splits) linarith
    then obtain m :: int where "n = 2 * m" by blast
    then have "?x / ?q = of_int m" using e by simp
    then show ?thesis by blast
  qed
  then obtain m :: int where m: "?x / ?q = of_int m" by blast
  have "?q * of_int (round_half_even (?x / ?q)) = ?q * (?x / ?q)"
    by (simp only: m round_half_even_of_int)
  also have "\<dots> = ?x" using qpos by simp
  finally have r: "?q * of_int (round_half_even (?x / ?q)) = ?x" .
  have "\<bar>?x\<bar> < 2 ^ 1024" using le53
    by (rule order_le_less_trans) simp
  with False b e0 r show ?thesis
    by (simp add: round_double_def Let_def max_def)
qed

lemma round_double_whole: "x \<in> \<int> \<Longrightarrow> \<bar>x\<bar> \<le> 2 ^ 53 \<Longrightarrow> round_double x = Finite x"
proof -
  assume "x \<in> \<int>" and le: "\<bar>x\<bar> \<le> 2 ^ 53"
  then obtain n :: int where x: "x = of_int n" by (auto elim: Ints_cases)
  from le have "(of_int \<bar>n\<bar> :: real) \<le> of_int (2 ^ 53)" unfolding x by simp
  then have "\<bar>n\<bar> \<le> 2 ^ 53" by (simp only: of_int_le_iff)
  then show ?thesis unfolding x by (rule round_double_of_int)
qed

section \<open>The holding ledger's totals\<close>

text \<open>A running total of whole numbers stays exact while the magnitudes fit.\<close>

lemma foldl_num_add_whole:
  assumes "list_all (\<lambda>h. g h = Finite (f h) \<and> f h \<in> \<int>) hs"
    and "a \<in> \<int>" and "\<bar>a\<bar> + sum_list (map (\<lambda>h. \<bar>f h\<bar>) hs) \<le> 2 ^ 53"
  shows "foldl (\<lambda>sum h. num_add sum (g h)) (Finite a) hs = Finite (a + sum_list (map f hs))"
  using assms
proof (induction hs arbitrary: a)
  case Nil
  then show ?case by simp
next
  case (Cons h hs)
  from Cons.prems have g: "g h = Finite (f h)" and w: "f h \<in> \<int>"
    and rest: "list_all (\<lambda>h. g h = Finite (f h) \<and> f h \<in> \<int>) hs" by simp_all
  from Cons.prems(2) w have aw: "a + f h \<in> \<int>" by simp
  have nonneg: "0 \<le> sum_list (map (\<lambda>h. \<bar>f h\<bar>) hs)" by (rule sum_list_nonneg) auto
  from Cons.prems(3) have bound: "\<bar>a + f h\<bar> + sum_list (map (\<lambda>h. \<bar>f h\<bar>) hs) \<le> 2 ^ 53"
    by simp
  with nonneg have "\<bar>a + f h\<bar> \<le> 2 ^ 53" by linarith
  with aw have "num_add (Finite a) (g h) = Finite (a + f h)"
    by (simp add: g round_double_whole)
  with Cons.IH [OF rest aw bound] show ?case by (simp add: add.assoc)
qed

lemma abs_sum_list_le: "\<bar>sum_list (map f hs)\<bar> \<le> sum_list (map (\<lambda>h. \<bar>f h :: real\<bar>) hs)"
  by (induction hs) auto

lemma sum_list_Ints: "list_all (\<lambda>h. f h \<in> \<int>) hs \<Longrightarrow> sum_list (map f hs) \<in> (\<int> :: real set)"
  by (induction hs) auto

lemma is_whole_Ints: "is_whole x \<longleftrightarrow> x \<in> \<int>"
  unfolding is_whole_def by (metis Ints_of_int floor_of_int Ints_cases)

lemma amount_or_zero:
  "is_finite (asset_amount h) \<Longrightarrow>
   num_or (Some (asset_amount h)) (Finite 0) = Finite (amount_val h)"
  by (cases "asset_amount h") (simp_all add: amount_val_def)

lemma profitLoss_or_zero:
  "(case asset_profitLoss h of None \<Rightarrow> True | Some n \<Rightarrow> is_finite n) \<Longrightarrow>
   num_or (asset_profitLoss h) (Finite 0) = Finite (profitLoss_val h)"
  apply (cases "asset_profitLoss h")
   apply (simp add: profitLoss_val_def)
  subgoal for n by (cases n) (simp_all add: profitLoss_val_def)
  done

lemma magnitude_parts:
  "sum_list (map magnitude hs)
     = sum_list (map (\<lambda>h. \<bar>amount_val h\<bar>) hs) + sum_list (map (\<lambda>h. \<bar>profitLoss_val h\<bar>) hs)"
  by (induction hs) (simp_all add: magnitude_def)

lemma totals_whole:
  assumes w: "list_all whole_entry (currentHoldings p)"
    and m: "sum_list (map magnitude (currentHoldings p)) \<le> 2 ^ 53"
  shows "totalAmount p = Finite (sum_list (map amount_val (currentHoldings p)))"
    and "totalProfitLoss p = Finite (sum_list (map profitLoss_val (currentHoldings p)))"
    and "totalInvested p
           = Finite (sum_list (map amount_val (currentHoldings p))
                     - sum_list (map profitLoss_val (currentHoldings p)))"
proof -
  let ?hs = "currentHoldings p"
  let ?A = "sum_list (map (\<lambda>h. \<bar>amount_val h\<bar>) ?hs)"
  let ?P = "sum_list (map (\<lambda>h. \<bar>profitLoss_val h\<bar>) ?hs)"
  have A0: "0 \<le> ?A" by (rule sum_list_nonneg) auto
  have P0: "0 \<le> ?P" by (rule sum_list_nonneg) auto
  from m have AP: "?A + ?P \<le> 2 ^ 53" by (simp add: magnitude_parts)
  have wa: "list_all (\<lambda>h. num_or (Some (asset_amount h)) (Finite 0) = Finite (amount_val h)
                           \<and> amount_val h \<in> \<int>) ?hs"
    using w by (auto simp add: list_all_iff whole_entry_def is_whole_Ints amount_or_zero
                   simp del: num_or.simps)
  have wp: "list_all (\<lambda>h. num_or (asset_profitLoss h) (Finite 0) = Finite (profitLoss_val h)
                           \<and> profitLoss_val h \<in> \<int>) ?hs"
    using w by (auto simp add: list_all_iff whole_entry_def is_whole_Ints profitLoss_or_zero
                   simp del: num_or.simps)
  from A0 P0 AP have "\<bar>0::real\<bar> + ?A \<le> 2 ^ 53" "\<bar>0::real\<bar> + ?P \<le> 2 ^ 53" by simp_all
  from foldl_num_add_whole [OF wa _ this(1)] foldl_num_add_whole [OF wp _ this(2)]
  show a: "totalAmount p = Finite (sum_list (map amount_val ?hs))"
    and pl: "totalProfitLoss p = Finite (sum_list (map profitLoss_val ?hs))"
    by (simp_all add: totalAmount_def totalProfitLoss_def)
  have "sum_list (map amount_val ?hs) \<in> \<int>" "sum_list (map profitLoss_val ?hs) \<in> \<int>"
    using wa wp by (auto intro!: sum_list_Ints simp add: list_all_iff)
  then have d: "sum_list (map amount_val ?hs) - sum_list (map profitLoss_val ?hs) \<in> \<int>"
    by simp
  have "\<bar>sum_list (map amount_val ?hs) - sum_list (map profitLoss_val ?hs)\<bar> \<le> ?A + ?P"
    using abs_sum_list_le [of amount_val ?hs] abs_sum_list_le [of profitLoss_val ?hs] by linarith
  with AP have "\<bar>sum_list (map amount_val ?hs) - sum_list (map profitLoss_val ?hs)\<bar> \<le> 2 ^ 53"
    by linarith
  from round_double_whole [OF d this]
  show "totalInvested p
           = Finite (sum_list (map amount_val ?hs) - sum_list (map profitLoss_val ?hs))"
    by (simp add: totalInvested_def num_sub_def a pl)
qed

text \<open>
  Claim C5, as amended. The totals are computed in doubles, in the order of the entries.
  After any sequence of add, update and remove operations that leaves entries in whole
  units whose magnitudes sum to at most \<^verbatim>\<open>2^53\<close>, the total amount is the sum of the
  current entries' amounts, the total profit/loss the sum of their profit/loss fields (an
  absent one counts as 0), the invested base their difference, and the return percentage
  is profit/loss over invested base times 100, each operation rounded, when the invested
  base is positive. After any sequence of operations at all, the return percentage is
  exactly 0 unless the invested base is greater than 0.
\<close>

theorem totals_after_ledger_ops:
  "(list_all whole_entry (currentHoldings (run_ledger_ops p0 ops))
    \<and> sum_list (map magnitude (currentHoldings (run_ledger_ops p0 ops))) \<le> 2 ^ 53 \<longrightarrow>
      (let p = run_ledger_ops p0 ops;
           sumAmount = sum_list (map amount_val (currentHoldings p));
           sumProfitLoss = sum_list (map profitLoss_val (currentHoldings p));
           investedBase = sumAmount - sumProfitLoss
       in totalAmount p = Finite sumAmount
        \<and> totalProfitLoss p = Finite sumProfitLoss
        \<and> totalInvested p = Finite investedBase
        \<and> totalReturnPct p =
            (if investedBase > 0
             then num_mul (num_div (Finite sumProfitLoss) (Finite investedBase)) (Finite 100)
             else Finite 0)))
   \<and> (\<not> num_gt (totalInvested (run_ledger_ops p0 ops)) (Finite 0) \<longrightarrow>
        totalReturnPct (run_ledger_ops p0 ops) = Finite 0)"
proof -
  have exact: "list_all whole_entry (currentHoldings (run_ledger_ops p0 ops))
    \<and> sum_list (map magnitude (currentHoldings (run_ledger_ops p0 ops))) \<le> 2 ^ 53 \<longrightarrow>
      (let p = run_ledger_ops p0 ops;
           sumAmount = sum_list (map amount_val (currentHoldings p));
           sumProfitLoss = sum_list (map profitLoss_val (currentHoldings p));
           investedBase = sumAmount - sumProfitLoss
       in totalAmount p = Finite sumAmount
        \<and> totalProfitLoss p = Finite sumProfitLoss
        \<and> totalInvested p = Finite investedBase
        \<and> totalReturnPct p =
            (if investedBase > 0
             then num_mul (num_div (Finite sumProfitLoss) (Finite investedBase)) (Finite 100)
             else Finite 0))"
  proof
    assume h: "list_all whole_entry (currentHoldings (run_ledger_ops p0 ops))
      \<and> sum_list (map magnitude (currentHoldings (run_ledger_ops p0 ops))) \<le> 2 ^ 53"
    then have w: "list_all whole_entry (currentHoldings (run_ledger_ops p0 ops))"
      and m: "sum_list (map magnitude (currentHoldings (run_ledger_ops p0 ops))) \<le> 2 ^ 53"
      by simp_all
    from totals_whole [OF w m] show "(let p = run_ledger_ops p0 ops;
           sumAmount = sum_list (map amount_val (currentHoldings p));
           sumProfitLoss = sum_list (map profitLoss_val (currentHoldings p));
           investedBase = sumAmount - sumProfitLoss
       in totalAmount p = Finite sumAmount
        \<and> totalProfitLoss p = Finite sumProfitLoss
        \<and> totalInvested p = Finite investedBase
        \<and> totalReturnPct p =
            (if investedBase > 0
             then num_mul (num_div (Finite sumProfitLoss) (Finite investedBase)) (Finite 100)
             else Finite 0))"
      by (simp add: Let_def totalReturnPct_def del: num_mul.simps num_div.simps)
  qed
  have zero: "\<not> num_gt (totalInvested (run_ledger_ops p0 ops)) (Finite 0) \<longrightarrow>
        totalReturnPct (run_ledger_ops p0 ops) = Finite 0"
    by (simp add: totalReturnPct_def)
  from exact zero show ?thesis by (rule conjI)
qed

lemma example_holdings:
  "currentHoldings (run_ledger_ops initialProfile exampleOps) =
     [initialNewHolding\<lparr>asset_name := ascii ''A'', asset_amount := Finite 1500,
                         asset_profitLoss := Some (Finite 250),
                         asset_id := ascii ''1700000000001'',
                         asset_confidence := Some (Finite 1)\<rparr>,
      initialNewHolding\<lparr>asset_name := ascii ''C'', asset_amount := Finite 300,
                         asset_profitLoss := Some (Finite (- 50)),
                         asset_id := ascii ''1700000000003'',
                         asset_confidence := Some (Finite 1)\<rparr>]"
  by (simp add: run_ledger_ops_def exampleOps_def initialProfile_def initialNewHolding_def
       addHolding_def updateHoldingRow_def removeHolding_def ascii_def)

lemma round_double_eighth: "round_double (1 / 8) = Finite (1 / 8)"
  by (simp add: round_double_def binade_def round_half_even_def eval_nat_numeral)

lemma round_double_twelve_and_half: "round_double (25 / 2) = Finite (25 / 2)"
  by (simp add: round_double_def binade_def round_half_even_def eval_nat_numeral)

theorem totals_after_ledger_ops_witness:
  "totalAmount (run_ledger_ops initialProfile exampleOps) = Finite 1800
   \<and> totalProfitLoss (run_ledger_ops initialProfile exampleOps) = Finite 200
   \<and> totalInvested (run_ledger_ops initialProfile exampleOps) = Finite 1600
   \<and> totalReturnPct (run_ledger_ops initialProfile exampleOps) = Finite (25 / 2)
   \<and> totalReturnPct (run_ledger_ops initialProfile []) = Finite 0"
proof -
  let ?p = "run_ledger_ops initialProfile exampleOps"
  have w: "list_all whole_entry (currentHoldings ?p)"
    by (simp add: example_holdings whole_entry_def is_whole_def amount_val_def profitLoss_val_def)
  have m: "sum_list (map magnitude (currentHoldings ?p)) \<le> 2 ^ 53"
    by (simp add: example_holdings magnitude_def amount_val_def profitLoss_val_def)
  have e: "\<not> num_gt (totalInvested (run_ledger_ops initialProfile [])) (Finite 0)"
    by (simp add: run_ledger_ops_def totalInvested_def totalAmount_def totalProfitLoss_def
          initialProfile_def num_sub_def round_double_def)
  from totals_after_ledger_ops [of initialProfile exampleOps] w m
    totals_after_ledger_ops [of initialProfile "[]"] e
  show ?thesis
    by (simp add: example_holdings Let_def amount_val_def profitLoss_val_def
          round_double_eighth round_double_twelve_and_half)
qed

section \<open>Totals of fractional amounts\<close>

lemma fractional_holdings:
  "currentHoldings (run_ledger_ops initialProfile fractionalOps) =
     [initialNewHolding\<lparr>asset_name := ascii ''A'', asset_amount := Finite tenth,
                         asset_profitLoss := Some (Finite threeTenths),
                         asset_id := ascii ''1700000000001'',
                         asset_confidence := Some (Finite 1)\<rparr>,
      initialNewHolding\<lparr>asset_name := ascii ''B'', asset_amount := Finite (2 * tenth),
                         asset_id := ascii ''1700000000002'',
                         asset_confidence := Some (Finite 1)\<rparr>]"
  by (simp add: run_ledger_ops_def fractionalOps_def initialProfile_def initialNewHolding_def
        addHolding_def ascii_def)

lemma round_double_tenth: "round_double (1 / 10) = Finite tenth"
  by (simp add: round_double_def binade_def round_half_even_def tenth_def eval_nat_numeral)

lemma round_double_two_tenths: "round_double (1 / 5) = Finite (2 * tenth)"
  by (simp add: round_double_def binade_def round_half_even_def tenth_def eval_nat_numeral)

lemma round_double_three_tenths: "round_double (3 / 10) = Finite threeTenths"
  by (simp add: round_double_def binade_def round_half_even_def threeTenths_def eval_nat_numeral)

lemma entered_fractions:
  "handleAmountChange (ascii ''0.1'') = Some (Finite tenth)"
  "handleAmountChange (ascii ''0.2'') = Some (Finite (2 * tenth))"
  "handleAmountChange (ascii ''0.3'') = Some (Finite threeTenths)"
  by (simp_all add: handleAmountChange_def normalized_def parseFloat_def isWhiteSpace_def
        isDigit_def digitsValue_def ascii_def Let_def
        round_double_tenth round_double_two_tenths round_double_three_tenths)

lemma fractional_totalAmount:
  "totalAmount (run_ledger_ops initialProfile fractionalOps) = Finite (5404319552844596 / 2 ^ 54)"
proof -
  have first: "round_double tenth = Finite tenth"
    by (simp add: round_double_def binade_def round_half_even_def tenth_def eval_nat_numeral)
  have "round_double (tenth + 2 * tenth) = Finite (5404319552844596 / 2 ^ 54)"
    by (simp add: round_double_def binade_def round_half_even_def tenth_def eval_nat_numeral)
  then have third: "round_double (3 * tenth) = Finite (5404319552844596 / 2 ^ 54)" by simp
  have nz: "tenth \<noteq> 0" by (simp add: tenth_def)
  then show ?thesis by (simp add: totalAmount_def fractional_holdings first third)
qed

lemma fractional_totalProfitLoss:
  "totalProfitLoss (run_ledger_ops initialProfile fractionalOps) = Finite threeTenths"
proof -
  have r: "round_double threeTenths = Finite threeTenths"
    by (simp add: round_double_def binade_def round_half_even_def threeTenths_def eval_nat_numeral)
  have nz: "threeTenths \<noteq> 0" by (simp add: threeTenths_def)
  have z: "round_double 0 = Finite 0" by (simp add: round_double_def)
  from nz show ?thesis
    by (simp add: totalProfitLoss_def fractional_holdings initialNewHolding_def r z)
qed

lemma fractional_totalInvested:
  "totalInvested (run_ledger_ops initialProfile fractionalOps) = Finite (1 / 2 ^ 54)"
proof -
  have "round_double (5404319552844596 / 2 ^ 54 - threeTenths) = Finite (1 / 2 ^ 54)"
    by (simp add: round_double_def binade_def round_half_even_def threeTenths_def eval_nat_numeral)
  then show ?thesis
    by (simp add: totalInvested_def num_sub_def fractional_totalAmount fractional_totalProfitLoss)
qed

lemma fractional_totalReturnPct:
  "totalReturnPct (run_ledger_ops initialProfile fractionalOps) = Finite 540431955284459520"
proof -
  have q: "round_double (threeTenths / (1 / 2 ^ 54)) = Finite 5404319552844595"
    using round_double_of_int [of 5404319552844595] by (simp add: threeTenths_def)
  have m: "round_double (5404319552844595 * 100) = Finite 540431955284459520"
    by (simp add: round_double_def binade_def round_half_even_def eval_nat_numeral)
  have "num_mul (num_div (Finite threeTenths) (Finite (1 / 2 ^ 54))) (Finite 100)
          = Finite 540431955284459520"
    using q m by simp
  then show ?thesis
    by (simp add: totalReturnPct_def fractional_totalInvested fractional_totalProfitLoss
          del: num_mul.simps num_div.simps)
qed

text \<open>
  The claim as stated fails. With the amounts entered as \<^verbatim>\<open>0.1\<close> and \<^verbatim>\<open>0.2\<close> and
  the profit/loss \<^verbatim>\<open>0.3\<close>, the total amount is the double next above the sum of the two
  amounts (\<^verbatim>\<open>0.30000000000000004\<close>), the invested base is \<^verbatim>\<open>2^(-54)\<close>, twice
  the difference of the sums, and the return percentage is \<^verbatim>\<open>540431955284459520\<close>.
\<close>

theorem totals_rounded_counterexample:
  "handleAmountChange (ascii ''0.1'') = Some (Finite tenth)
   \<and> handleAmountChange (ascii ''0.2'') = Some (Finite (2 * tenth))
   \<and> handleAmountChange (ascii ''0.3'') = Some (Finite threeTenths)
   \<and> map asset_amount (currentHoldings (run_ledger_ops initialProfile fractionalOps))
       = [Finite tenth, Finite (2 * tenth)]
   \<and> map asset_profitLoss (currentHoldings (run_ledger_ops initialProfile fractionalOps))
       = [Some (Finite threeTenths), Some (Finite 0)]
   \<and> totalAmount (run_ledger_ops initialProfile fractionalOps) = Finite (5404319552844596 / 2 ^ 54)
   \<and> tenth + 2 * tenth = 10808639105689191 / 2 ^ 55
   \<and> totalAmount (run_ledger_ops initialProfile fractionalOps) \<noteq> Finite (tenth + 2 * tenth)
   \<and> totalInvested (run_ledger_ops initialProfile fractionalOps) = Finite (1 / 2 ^ 54)
   \<and> tenth + 2 * tenth - threeTenths = 1 / 2 ^ 55
   \<and> totalInvested (run_ledger_ops initialProfile fractionalOps)
       \<noteq> Finite (tenth + 2 * tenth - threeTenths)
   \<and> totalReturnPct (run_ledger_ops initialProfile fractionalOps) = Finite 540431955284459520
   \<and> threeTenths / (tenth + 2 * tenth - threeTenths) * 100 = 1080863910568919000"
proof -
  have h: "map asset_amount (currentHoldings (run_ledger_ops initialProfile fractionalOps))
       = [Finite tenth, Finite (2 * tenth)]"
    by (simp add: fractional_holdings)
  have g: "map asset_profitLoss (currentHoldings (run_ledger_ops initialProfile fractionalOps))
       = [Some (Finite threeTenths), Some (Finite 0)]"
    by (simp add: fractional_holdings initialNewHolding_def)
  have s: "tenth + 2 * tenth = 10808639105689191 / 2 ^ 55"
    by (simp add: tenth_def)
  have d: "tenth + 2 * tenth - threeTenths = 1 / 2 ^ 55"
    by (simp add: tenth_def threeTenths_def)
  have a: "totalAmount (run_ledger_ops initialProfile fractionalOps) \<noteq> Finite (tenth + 2 * tenth)"
    by (simp add: fractional_totalAmount tenth_def)
  have i: "totalInvested (run_ledger_ops initialProfile fractionalOps)
       \<noteq> Finite (tenth + 2 * tenth - threeTenths)"
    by (simp add: fractional_totalInvested tenth_def threeTenths_def)
  have p: "threeTenths / (tenth + 2 * tenth - threeTenths) * 100 = 1080863910568919000"
    by (simp add: tenth_def threeTenths_def)
  from entered_fractions h g fractional_totalAmount s a fractional_totalInvested d i
    fractional_totalReturnPct p
  show ?thesis by (intro conjI)
qed

section \<open>Amount fields\<close>

lemma normalized_append: "normalized (xs @ ys) = normalized xs @ normalized ys"
  by (simp add: normalized_def)

lemma normalized_clean:
  "list_all (\<lambda>c. c \<noteq> 44 \<and> \<not> (0xFF10 \<le> c \<and> c \<le> 0xFF19)) (normalized val)"
  by (induction val) (auto simp add: normalized_def)

lemma normalized_fullwidth_digit:
  "0xFF10 \<le> c \<and> c \<le> 0xFF19 \<longrightarrow> normalized [c] = [48 + (c - 0xFF10)]"
proof (intro impI)
  assume r: "0xFF10 \<le> c \<and> c \<le> 0xFF19"
  then have "c - 0xFEE0 < (65536::nat)" by linarith
  then have m: "(c - 0xFEE0) mod 65536 = c - 0xFEE0" by (rule mod_less)
  from r have e: "c - 0xFEE0 = 48 + (c - 0xFF10)" by linarith
  from r have n: "c - 0xFEE0 \<noteq> 44" by linarith
  have "normalized [c] = [c - 0xFEE0]"
    unfolding normalized_def using r n by (simp add: m)
  then show "normalized [c] = [48 + (c - 0xFF10)]"
    by (simp only: e)
qed

lemma parseFloat_empty: "parseFloat [] = NaN"
  by (simp add: parseFloat_def ascii_def)

text \<open>
  Claim C4, as amended. The normalization turns every full-width digit into the ASCII
  digit and deletes every ASCII comma, and nothing else. \<^verbatim>\<open>handleAmountChange\<close>
  applies 0 when what is left is empty or a bare minus sign, applies the number
  \<^verbatim>\<open>parseFloat\<close> reads otherwise, and applies nothing when \<^verbatim>\<open>parseFloat\<close> reads
  no number. \<^verbatim>\<open>updateProposedAmount\<close> sets the amount to the number read, sets it to
  0 for the empty input only, and leaves the ledger alone otherwise. Full-width 1, ASCII
  comma, full-width 234 gives 1234, and a bare minus sign gives 0 in
  \<^verbatim>\<open>handleAmountChange\<close>.
\<close>

theorem amount_normalization:
  "list_all (\<lambda>c. c \<noteq> 44 \<and> \<not> (0xFF10 \<le> c \<and> c \<le> 0xFF19)) (normalized val)
   \<and> normalized (xs @ ys) = normalized xs @ normalized ys
   \<and> normalized [44] = []
   \<and> (0xFF10 \<le> c \<and> c \<le> 0xFF19 \<longrightarrow> normalized [c] = [48 + (c - 0xFF10)])
   \<and> (c \<noteq> 44 \<and> \<not> (0xFF10 \<le> c \<and> c \<le> 0xFF19) \<longrightarrow> normalized [c] = [c])
   \<and> (normalized val = [] \<or> normalized val = [45] \<longrightarrow> handleAmountChange val = Some (Finite 0))
   \<and> (normalized val \<noteq> [] \<and> normalized val \<noteq> [45] \<and> parseFloat (normalized val) \<noteq> NaN
        \<longrightarrow> handleAmountChange val = Some (parseFloat (normalized val)))
   \<and> (normalized val \<noteq> [] \<and> normalized val \<noteq> [45] \<and> parseFloat (normalized val) = NaN
        \<longrightarrow> handleAmountChange val = None)
   \<and> handleAmountChange [0xFF11, 44, 0xFF12, 0xFF13, 0xFF14] = Some (Finite 1234)
   \<and> handleAmountChange [45] = Some (Finite 0)
   \<and> updateProposedAmount i [] prev = setAmount i (Finite 0) prev
   \<and> (parseFloat (normalized val) \<noteq> NaN
        \<longrightarrow> updateProposedAmount i val prev = setAmount i (parseFloat (normalized val)) prev)
   \<and> (parseFloat (normalized val) = NaN \<and> val \<noteq> []
        \<longrightarrow> updateProposedAmount i val prev = prev)"
proof -
  have r: "round_double 1234 = Finite 1234"
    using round_double_of_int [of 1234] by simp
  have ex: "handleAmountChange [0xFF11, 44, 0xFF12, 0xFF13, 0xFF14] = Some (Finite 1234)"
    by (simp add: handleAmountChange_def normalized_def parseFloat_def isWhiteSpace_def
          isDigit_def digitsValue_def ascii_def Let_def r)
  have minus: "handleAmountChange [45] = Some (Finite 0)"
    by (simp add: handleAmountChange_def normalized_def)
  have comma: "normalized [44] = []"
    by (simp add: normalized_def)
  have single: "c \<noteq> 44 \<and> \<not> (0xFF10 \<le> c \<and> c \<le> 0xFF19) \<longrightarrow> normalized [c] = [c]"
    by (simp add: normalized_def)
  have zero: "normalized val = [] \<or> normalized val = [45] \<longrightarrow> handleAmountChange val = Some (Finite 0)"
    by (simp add: handleAmountChange_def Let_def)
  have applied: "normalized val \<noteq> [] \<and> normalized val \<noteq> [45] \<and> parseFloat (normalized val) \<noteq> NaN
        \<longrightarrow> handleAmountChange val = Some (parseFloat (normalized val))"
    by (simp add: handleAmountChange_def Let_def)
  have ignored: "normalized val \<noteq> [] \<and> normalized val \<noteq> [45] \<and> parseFloat (normalized val) = NaN
        \<longrightarrow> handleAmountChange val = None"
    by (simp add: handleAmountChange_def Let_def)
  have upd0: "updateProposedAmount i [] prev = setAmount i (Finite 0) prev"
    by (simp add: updateProposedAmount_def setAmount_def normalized_def parseFloat_empty)
  have upd1: "parseFloat (normalized val) \<noteq> NaN
        \<longrightarrow> updateProposedAmount i val prev = setAmount i (parseFloat (normalized val)) prev"
    by (simp add: updateProposedAmount_def setAmount_def Let_def)
  have upd2: "parseFloat (normalized val) = NaN \<and> val \<noteq> []
        \<longrightarrow> updateProposedAmount i val prev = prev"
    by (simp add: updateProposedAmount_def Let_def)
  from normalized_clean [of val] normalized_append [of xs ys] comma
    normalized_fullwidth_digit [of c] single zero applied ignored ex minus upd0 upd1 upd2
  show ?thesis by (intro conjI)
qed

theorem amount_normalization_witness:
  "handleAmountChange (ascii ''1,250.5 yen'') = Some (Finite 1250.5)
   \<and> handleAmountChange (ascii '','') = Some (Finite 0)
   \<and> handleAmountChange (ascii ''abc'') = None
   \<and> normalized [0xFF13] = [51]
   \<and> normalized (ascii ''x'') = ascii ''x''
   \<and> updateProposedAmount (ascii ''p1'') (ascii ''2,000'')
        [initialNewHolding\<lparr>asset_id := ascii ''p1'', asset_amount := Finite 1000000\<rparr>]
       = [initialNewHolding\<lparr>asset_id := ascii ''p1'', asset_amount := Finite 2000\<rparr>]
   \<and> updateProposedAmount (ascii ''p1'') (ascii ''abc'')
        [initialNewHolding\<lparr>asset_id := ascii ''p1'', asset_amount := Finite 1000000\<rparr>]
       = [initialNewHolding\<lparr>asset_id := ascii ''p1'', asset_amount := Finite 1000000\<rparr>]"
proof -
  have n1: "normalized (ascii ''1,250.5 yen'') = ascii ''1250.5 yen''"
    by (simp add: normalized_def ascii_def)
  have r1: "round_double (2501 / 2) = Finite (2501 / 2)"
    by (simp add: round_double_def binade_def round_half_even_def eval_nat_numeral)
  have p1: "parseFloat (ascii ''1250.5 yen'') = Finite 1250.5"
    by (simp add: parseFloat_def isWhiteSpace_def isDigit_def digitsValue_def ascii_def Let_def r1)
  have n2: "normalized (ascii '','') = []"
    by (simp add: normalized_def ascii_def)
  have n3: "normalized (ascii ''abc'') = ascii ''abc''"
    by (simp add: normalized_def ascii_def)
  have p3: "parseFloat (ascii ''abc'') = NaN"
    by (simp add: parseFloat_def isWhiteSpace_def isDigit_def digitsValue_def ascii_def Let_def)
  have n4: "normalized (ascii ''2,000'') = ascii ''2000''"
    by (simp add: normalized_def ascii_def)
  have r4: "round_double 2000 = Finite 2000"
    using round_double_of_int [of 2000] by simp
  have p4: "parseFloat (ascii ''2000'') = Finite 2000"
    by (simp add: parseFloat_def isWhiteSpace_def isDigit_def digitsValue_def ascii_def Let_def r4)
  have a: "handleAmountChange (ascii ''1,250.5 yen'') = Some (Finite 1250.5)"
    using amount_normalization [of "ascii ''1,250.5 yen''"] n1 p1 by (simp add: ascii_def)
  have b: "handleAmountChange (ascii '','') = Some (Finite 0)"
    using amount_normalization [of "ascii '',''"] n2 by simp
  have c: "handleAmountChange (ascii ''abc'') = None"
    using amount_normalization [of "ascii ''abc''"] n3 p3 by (simp add: ascii_def)
  have d: "normalized [0xFF13] = [51]"
    using amount_normalization [of "[]" "[]" "[]" "0xFF13"] by simp
  have e: "normalized (ascii ''x'') = ascii ''x''"
    using amount_normalization [of "[]" "[]" "[]" "120"] by (simp add: ascii_def)
  have f: "updateProposedAmount (ascii ''p1'') (ascii ''2,000'')
        [initialNewHolding\<lparr>asset_id := ascii ''p1'', asset_amount := Finite 1000000\<rparr>]
       = [initialNewHolding\<lparr>asset_id := ascii ''p1'', asset_amount := Finite 2000\<rparr>]"
    using amount_normalization [of "ascii ''2,000''" "[]" "[]" 0 "ascii ''p1''"
        "[initialNewHolding\<lparr>asset_id := ascii ''p1'', asset_amount := Finite 1000000\<rparr>]"] n4 p4
    by (simp add: setAmount_def)
  have g: "updateProposedAmount (ascii ''p1'') (ascii ''abc'')
        [initialNewHolding\<lparr>asset_id := ascii ''p1'', asset_amount := Finite 1000000\<rparr>]
       = [initialNewHolding\<lparr>asset_id := ascii ''p1'', asset_amount := Finite 1000000\<rparr>]"
    using amount_normalization [of "ascii ''abc''" "[]" "[]" 0 "ascii ''p1''"
        "[initialNewHolding\<lparr>asset_id := ascii ''p1'', asset_amount := Finite 1000000\<rparr>]"] n3 p3
    by (simp add: ascii_def)
  from a b c d e f g show ?thesis by (intro conjI)
qed

text \<open>
  The claim as stated fails: its example separates the digits with the full-width comma
  (U+FF0C), which is not deleted, so \<^verbatim>\<open>parseFloat\<close> stops after the first digit and
  the amount applied is 1; and \<^verbatim>\<open>updateProposedAmount\<close> ignores a bare minus sign.
\<close>

theorem amount_normalization_counterexample:
  "handleAmountChange [0xFF11, 0xFF0C, 0xFF12, 0xFF13, 0xFF14] = Some (Finite 1)
   \<and> handleAmountChange [0xFF11, 0xFF0C, 0xFF12, 0xFF13, 0xFF14] \<noteq> Some (Finite 1234)
   \<and> updateProposedAmount (ascii ''p1'') [45]
        [initialNewHolding\<lparr>asset_id := ascii ''p1'', asset_amount := Finite 1000000\<rparr>]
       = [initialNewHolding\<lparr>asset_id := ascii ''p1'', asset_amount := Finite 1000000\<rparr>]"
proof -
  have r: "round_double 1 = Finite 1"
    using round_double_of_int [of 1] by simp
  have a: "handleAmountChange [0xFF11, 0xFF0C, 0xFF12, 0xFF13, 0xFF14] = Some (Finite 1)"
    by (simp add: handleAmountChange_def normalized_def parseFloat_def isWhiteSpace_def
          isDigit_def digitsValue_def ascii_def Let_def r)
  have b: "updateProposedAmount (ascii ''p1'') [45]
        [initialNewHolding\<lparr>asset_id := ascii ''p1'', asset_amount := Finite 1000000\<rparr>]
       = [initialNewHolding\<lparr>asset_id := ascii ''p1'', asset_amount := Finite 1000000\<rparr>]"
    by (simp add: updateProposedAmount_def normalized_def parseFloat_def isWhiteSpace_def
          isDigit_def digitsValue_def ascii_def Let_def)
  from a b show ?thesis by simp
qed

section \<open>The report pipeline of \<^verbatim>\<open>services/geminiService.ts\<close>\<close>


lemma orMockProposal_Inr: "\<exists>d. orMockProposal r = Inr d"
  by (cases r) (simp_all add: orMockProposal_def)















section \<open>The report pipeline of the search-based version\<close>

lemma retry_logs_request:
  "0 < k \<Longrightarrow> GenerateContent p \<in> set (snd (generateWithRetry_loop w p k calls))"
proof (induction k arbitrary: calls)
  case 0
  then show ?case by simp
next
  case (Suc k)
  show ?case
  proof (cases "generateContent w (length calls) p")
    case (Inr r)
    then show ?thesis by simp
  next
    case (Inl e)
    show ?thesis
    proof (cases "isQuotaError e \<and> 0 < k")
      case True
      then show ?thesis using Inl Suc.IH [of "calls @ [GenerateContent p]"] by simp
    next
      case False
      then show ?thesis using Inl by auto
    qed
  qed
qed

text \<open>
  Claim C2. In the search-based version of the service, the pipeline throws nothing. When
  the research request throws, \<^verbatim>\<open>performDeepResearch\<close> returns its placeholder text,
  and the generation request is made with that text; when the research result is empty,
  the generation request is made with the text saying that research data is unavailable;
  and when the generation request returns a payload that parses, the pipeline returns the
  parsed document as it is, whatever the research did.
\<close>

theorem research_failure_does_not_cascade:
  "(\<exists>d calls2. generateInvestmentProposal_part001 w parse prof proposed settings calls = (Inr d, calls2))
   \<and> (fst (generateWithRetry_part001 w (researchParams prof proposed) calls) = Inl e \<longrightarrow>
        fst (performDeepResearch w prof proposed calls) = researchFailedText
        \<and> GenerateContent
             \<lparr>model = REPORT_MODEL, contents = GenerationPrompt prof proposed researchFailedText\<rparr>
           \<in> set (snd (generateInvestmentProposal_part001 w parse prof proposed settings calls)))
   \<and> (fst (performDeepResearch w prof proposed calls) = [] \<longrightarrow>
        GenerateContent
             \<lparr>model = REPORT_MODEL, contents = GenerationPrompt prof proposed unavailableText\<rparr>
           \<in> set (snd (generateInvestmentProposal_part001 w parse prof proposed settings calls)))
   \<and> (fst (generateWithRetry_part001 w
              (generationParams prof proposed (fst (performDeepResearch w prof proposed calls)))
              (snd (performDeepResearch w prof proposed calls))) = Inr (Some r)
        \<and> resp_text r = Some s \<and> s \<noteq> [] \<and> parse s = Some doc \<longrightarrow>
        fst (generateInvestmentProposal_part001 w parse prof proposed settings calls) = Inr doc)"
proof -
  let ?research = "performDeepResearch w prof proposed calls"
  let ?g = "generateWithRetry_part001 w (generationParams prof proposed (fst ?research)) (snd ?research)"
  have eq: "generateInvestmentProposal_part001 w parse prof proposed settings calls
              = (orMockProposal (readProposal parse (fst ?g)), snd ?g)"
    by (simp add: generateInvestmentProposal_part001_def split_beta)
  have logged: "GenerateContent (generationParams prof proposed (fst ?research)) \<in> set (snd ?g)"
    unfolding generateWithRetry_part001_def by (rule retry_logs_request) simp
  have a: "\<exists>d calls2. generateInvestmentProposal_part001 w parse prof proposed settings calls = (Inr d, calls2)"
    using eq orMockProposal_Inr [of "readProposal parse (fst ?g)"] by auto
  have failed: "fst ?research = researchFailedText"
    if "fst (generateWithRetry_part001 w (researchParams prof proposed) calls) = Inl e"
    using that by (simp add: performDeepResearch_def split_beta)
  have nonempty: "researchFailedText \<noteq> []"
    by (simp add: researchFailedText_def ascii_def)
  have b: "fst (generateWithRetry_part001 w (researchParams prof proposed) calls) = Inl e \<longrightarrow>
        fst ?research = researchFailedText
        \<and> GenerateContent
             \<lparr>model = REPORT_MODEL, contents = GenerationPrompt prof proposed researchFailedText\<rparr>
           \<in> set (snd (generateInvestmentProposal_part001 w parse prof proposed settings calls))"
    using logged failed nonempty by (auto simp add: eq generationParams_def researchContext_def)
  have c: "fst ?research = [] \<longrightarrow>
        GenerateContent
             \<lparr>model = REPORT_MODEL, contents = GenerationPrompt prof proposed unavailableText\<rparr>
           \<in> set (snd (generateInvestmentProposal_part001 w parse prof proposed settings calls))"
    using logged by (auto simp add: eq generationParams_def researchContext_def)
  have d: "fst ?g = Inr (Some r) \<and> resp_text r = Some s \<and> s \<noteq> [] \<and> parse s = Some doc \<longrightarrow>
        fst (generateInvestmentProposal_part001 w parse prof proposed settings calls) = Inr doc"
    by (simp add: eq readProposal_def orMockProposal_def)
  from a b c d show ?thesis by blast
qed

theorem research_failure_does_not_cascade_witness:
  "fst (generateWithRetry_part001 generationOnlyWorld (researchParams initialProfile []) [])
     = Inl networkError
   \<and> fst (performDeepResearch generationOnlyWorld initialProfile [] []) = researchFailedText
   \<and> generateInvestmentProposal_part001 generationOnlyWorld decodeSample initialProfile []
        initialSettings []
       = (Inr (OfType sampleDocument),
          [GenerateContent (researchParams initialProfile []),
           GenerateContent
             \<lparr>model = REPORT_MODEL,
              contents = GenerationPrompt initialProfile [] researchFailedText\<rparr>])
   \<and> fst (performDeepResearch emptyResearchWorld initialProfile [] []) = []
   \<and> generateInvestmentProposal_part001 emptyResearchWorld decodeSample initialProfile []
        initialSettings []
       = (Inr (OfType sampleDocument),
          [GenerateContent (researchParams initialProfile []),
           GenerateContent
             \<lparr>model = REPORT_MODEL,
              contents = GenerationPrompt initialProfile [] unavailableText\<rparr>])"
proof -
  let ?sample = "\<lparr>resp_text = Some sampleText, groundingUris = []\<rparr>"
  have q: "\<not> isQuotaError networkError"
    by (simp add: isQuotaError_def networkError_def toLowerCase_def ascii_def)
  have t: "sampleText \<noteq> []" by (simp add: sampleText_def ascii_def)
  have n: "researchFailedText \<noteq> []" by (simp add: researchFailedText_def ascii_def)
  have gp: "generationParams initialProfile [] researchFailedText =
      \<lparr>model = REPORT_MODEL, contents = GenerationPrompt initialProfile [] researchFailedText\<rparr>"
    using n by (simp add: generationParams_def researchContext_def)
  have gp': "generationParams initialProfile [] [] =
      \<lparr>model = REPORT_MODEL, contents = GenerationPrompt initialProfile [] unavailableText\<rparr>"
    by (simp add: generationParams_def researchContext_def)
  have r: "generateWithRetry_part001 generationOnlyWorld (researchParams initialProfile []) []
             = (Inl networkError, [GenerateContent (researchParams initialProfile [])])"
    by (simp add: generateWithRetry_part001_def generationOnlyWorld_def researchParams_def q
          numeral_3_eq_3)
  have p: "performDeepResearch generationOnlyWorld initialProfile [] []
             = (researchFailedText, [GenerateContent (researchParams initialProfile [])])"
    by (simp add: performDeepResearch_def r)
  have g: "generateWithRetry_part001 generationOnlyWorld
             (generationParams initialProfile [] researchFailedText)
             [GenerateContent (researchParams initialProfile [])]
           = (Inr (Some ?sample),
              [GenerateContent (researchParams initialProfile []),
               GenerateContent (generationParams initialProfile [] researchFailedText)])"
    by (simp add: generateWithRetry_part001_def generationOnlyWorld_def generationParams_def
          numeral_3_eq_3)
  have r': "generateWithRetry_part001 emptyResearchWorld (researchParams initialProfile []) []
             = (Inr (Some \<lparr>resp_text = Some [], groundingUris = []\<rparr>),
                [GenerateContent (researchParams initialProfile [])])"
    by (simp add: generateWithRetry_part001_def emptyResearchWorld_def researchParams_def
          numeral_3_eq_3)
  have p': "performDeepResearch emptyResearchWorld initialProfile [] []
             = ([], [GenerateContent (researchParams initialProfile [])])"
    by (simp add: performDeepResearch_def r' sourceLinks_def)
  have g': "generateWithRetry_part001 emptyResearchWorld
             (generationParams initialProfile [] [])
             [GenerateContent (researchParams initialProfile [])]
           = (Inr (Some ?sample),
              [GenerateContent (researchParams initialProfile []),
               GenerateContent (generationParams initialProfile [] [])])"
    by (simp add: generateWithRetry_part001_def emptyResearchWorld_def generationParams_def
          numeral_3_eq_3)
  have full: "fst (generateInvestmentProposal_part001 generationOnlyWorld decodeSample initialProfile []
        initialSettings []) = Inr (OfType sampleDocument)"
    using research_failure_does_not_cascade [of generationOnlyWorld decodeSample initialProfile "[]"
        initialSettings "[]" networkError ?sample sampleText "OfType sampleDocument"] t
    by (simp add: p g decodeSample_def)
  have calls: "snd (generateInvestmentProposal_part001 generationOnlyWorld decodeSample initialProfile []
        initialSettings []) =
          [GenerateContent (researchParams initialProfile []),
           GenerateContent
             \<lparr>model = REPORT_MODEL,
              contents = GenerationPrompt initialProfile [] researchFailedText\<rparr>]"
    by (simp add: generateInvestmentProposal_part001_def p g gp [symmetric])
  have full': "fst (generateInvestmentProposal_part001 emptyResearchWorld decodeSample initialProfile []
        initialSettings []) = Inr (OfType sampleDocument)"
    using research_failure_does_not_cascade [of emptyResearchWorld decodeSample initialProfile "[]"
        initialSettings "[]" networkError ?sample sampleText "OfType sampleDocument"] t
    by (simp add: p' g' decodeSample_def)
  have calls': "snd (generateInvestmentProposal_part001 emptyResearchWorld decodeSample initialProfile []
        initialSettings []) =
          [GenerateContent (researchParams initialProfile []),
           GenerateContent
             \<lparr>model = REPORT_MODEL,
              contents = GenerationPrompt initialProfile [] unavailableText\<rparr>]"
    by (simp add: generateInvestmentProposal_part001_def p' g' gp' [symmetric])
  from r p full calls p' full' calls' show ?thesis by (simp add: prod_eq_iff)
qed

section \<open>Fetching recommendations\<close>

lemma networkError_not_quota: "\<not> isQuotaError networkError"
  by (simp add: isQuotaError_def networkError_def toLowerCase_def ascii_def)

lemma fetchRecs_keeps_ledger: "proposedAssets (fetchRecs outcome random st) = proposedAssets st"
  by (simp add: fetchRecs_def split: sum.split parsed.split)

lemma fetchRecs_not_an_array:
  "fetchRecs (Inr (OtherJson j)) random st = st\<lparr>loadingRecs := False, error := Some fetchFailedMessage\<rparr>"
  by (simp add: fetchRecs_def)

lemma fetchRecs_failure:
  "fetchRecs (Inl e) random st = st\<lparr>loadingRecs := False, error := Some fetchFailedMessage\<rparr>"
  by (simp add: fetchRecs_def)

lemma getAssetRecommendations_never_throws:
  "\<exists>recs calls1. getAssetRecommendations w parseAssets prof settings calls = (Inr recs, calls1)"
  by (simp add: getAssetRecommendations_def split_beta split: sum.splits)

lemma getAssetRecommendations_part001_propagates:
  "fst (generateWithRetry_part001 w (recommendationParams_part001 prof settings) calls) = Inl e \<Longrightarrow>
   fst (getAssetRecommendations_part001 w parseAssets prof settings calls) = Inl e"
  by (simp add: getAssetRecommendations_part001_def readRecommendations_def split_beta)

text \<open>
  Claim C3. A failed recommendation fetch is to reach the caller, so that
  \<^verbatim>\<open>fetchRecs\<close> shows its error with the retry button, and is to leave the proposed
  assets alone. In \<^verbatim>\<open>services/geminiService.ts\<close> the failure does not reach the caller:
  with every request failing, \<^verbatim>\<open>getAssetRecommendations\<close> returns the empty list, and
  \<^verbatim>\<open>fetchRecs\<close> replaces the recommendations shown by none and sets no error. The
  search-based version of the service rethrows, and there \<^verbatim>\<open>fetchRecs\<close> sets the error
  and changes neither list. The proposed assets are unchanged in both.
\<close>

theorem recommendation_failure_swallowed:
  "getAssetRecommendations offlineWorld rejectAssets initialProfile initialSettings []
     = (Inr (OfType []), [GenerateContent (recommendationParams initialProfile initialSettings)])
   \<and> fetchRecs (fst (getAssetRecommendations offlineWorld rejectAssets initialProfile initialSettings []))
        (\<lambda>k. ascii ''0.75'') sampleRebalanceState
     = sampleRebalanceState\<lparr>recommendations := [], loadingRecs := False, error := None\<rparr>
   \<and> fst (getAssetRecommendations_part001 offlineWorld rejectAssets initialProfile initialSettings [])
     = Inl networkError
   \<and> fetchRecs (fst (getAssetRecommendations_part001 offlineWorld rejectAssets initialProfile initialSettings []))
        (\<lambda>k. ascii ''0.75'') sampleRebalanceState
     = sampleRebalanceState\<lparr>loadingRecs := False, error := Some fetchFailedMessage\<rparr>"
proof -
  have a: "getAssetRecommendations offlineWorld rejectAssets initialProfile initialSettings []
     = (Inr (OfType []), [GenerateContent (recommendationParams initialProfile initialSettings)])"
    by (simp add: getAssetRecommendations_def generateWithRetry_def offlineWorld_def
          networkError_not_quota readRecommendations_def eval_nat_numeral)
  have b: "fst (getAssetRecommendations_part001 offlineWorld rejectAssets initialProfile initialSettings [])
     = Inl networkError"
    by (simp add: getAssetRecommendations_part001_def generateWithRetry_part001_def offlineWorld_def
          networkError_not_quota readRecommendations_def eval_nat_numeral)
  show ?thesis
    by (simp add: a b fetchRecs_def)
qed

section \<open>Adding candidates to the proposal\<close>

lemma prefix_differs: "ascii ''prop-'' @ r \<noteq> ascii ''manual-'' @ n"
  by (simp add: ascii_def)

text \<open>
  Claim C6, as amended. Adding a candidate appends one entry and keeps the earlier ones.
  A recommended candidate gets the id \<^verbatim>\<open>prop-\<close> followed by the text of
  \<^verbatim>\<open>Math.random()\<close>, the amount 1,000,000 and the confidence the recommendation came
  with; a manually chosen one gets the id \<^verbatim>\<open>manual-\<close> followed by the text of
  \<^verbatim>\<open>Date.now()\<close>, the amount 1,000,000 and the confidence 1. The ids of the ledger
  stay distinct exactly when the new id is not yet in it; two consecutive adds of the same
  kind get different ids when their random texts (or clock readings) differ, whatever
  the names, and ids of the two kinds never coincide.
\<close>

theorem candidate_added:
  "length (addToProposal random asset ledger) = Suc (length ledger)
   \<and> take (length ledger) (addToProposal random asset ledger) = ledger
   \<and> last (addToProposal random asset ledger)
       = asset\<lparr>asset_id := ascii ''prop-'' @ random, asset_amount := Finite 1000000\<rparr>
   \<and> asset_confidence (last (addToProposal random asset ledger)) = asset_confidence asset
   \<and> (distinct (map asset_id (addToProposal random asset ledger))
        \<longleftrightarrow> distinct (map asset_id ledger) \<and> ascii ''prop-'' @ random \<notin> set (map asset_id ledger))
   \<and> (random \<noteq> random' \<longrightarrow>
        asset_id (last (addToProposal random' asset' (addToProposal random asset ledger)))
        \<noteq> asset_id (last (addToProposal random asset ledger)))
   \<and> length (selectManualAsset now stock ledger) = Suc (length ledger)
   \<and> take (length ledger) (selectManualAsset now stock ledger) = ledger
   \<and> asset_id (last (selectManualAsset now stock ledger)) = ascii ''manual-'' @ now
   \<and> asset_name (last (selectManualAsset now stock ledger)) = stock_name stock
   \<and> asset_amount (last (selectManualAsset now stock ledger)) = Finite 1000000
   \<and> asset_confidence (last (selectManualAsset now stock ledger)) = Some (Finite 1)
   \<and> (distinct (map asset_id (selectManualAsset now stock ledger))
        \<longleftrightarrow> distinct (map asset_id ledger) \<and> ascii ''manual-'' @ now \<notin> set (map asset_id ledger))
   \<and> (now \<noteq> now' \<longrightarrow>
        asset_id (last (selectManualAsset now' stock' (selectManualAsset now stock ledger)))
        \<noteq> asset_id (last (selectManualAsset now stock ledger)))
   \<and> asset_id (last (addToProposal random asset ledger))
       \<noteq> asset_id (last (selectManualAsset now stock ledger'))"
proof -
  have a: "(distinct (map asset_id (addToProposal random asset ledger))
        \<longleftrightarrow> distinct (map asset_id ledger) \<and> ascii ''prop-'' @ random \<notin> set (map asset_id ledger))"
    by (auto simp add: addToProposal_def)
  have m: "(distinct (map asset_id (selectManualAsset now stock ledger))
        \<longleftrightarrow> distinct (map asset_id ledger) \<and> ascii ''manual-'' @ now \<notin> set (map asset_id ledger))"
    by (auto simp add: selectManualAsset_def)
  have p: "asset_id (last (addToProposal random asset ledger))
       \<noteq> asset_id (last (selectManualAsset now stock ledger'))"
    using prefix_differs [of random now] by (simp add: addToProposal_def selectManualAsset_def)
  show ?thesis
    using a m p by (simp add: addToProposal_def selectManualAsset_def)
qed

theorem candidate_added_witness:
  "map asset_id
     (addToProposal (ascii ''0.75'') sampleRecommendation
        (addToProposal (ascii ''0.25'') sampleRecommendation []))
     = [ascii ''prop-0.25'', ascii ''prop-0.75'']
   \<and> map asset_id
     (selectManualAsset (ascii ''1700000000002'') sampleStock
        (selectManualAsset (ascii ''1700000000001'') sampleStock []))
     = [ascii ''manual-1700000000001'', ascii ''manual-1700000000002'']"
proof -
  have r: "ascii ''0.25'' \<noteq> ascii ''0.75''" by (simp add: ascii_def)
  have n: "ascii ''1700000000001'' \<noteq> ascii ''1700000000002''" by (simp add: ascii_def)
  from candidate_added [of "ascii ''0.25''" sampleRecommendation "[]" "ascii ''0.75''"
      sampleRecommendation "ascii ''1700000000001''" sampleStock "ascii ''1700000000002''" sampleStock] r n
  show ?thesis
    by (simp add: addToProposal_def selectManualAsset_def ascii_def)
qed

text \<open>
  The claim as stated fails: nothing compares the new id with the ledger's, so two manual
  adds at one clock reading share their id; and a recommendation without confidence is
  added without one.
\<close>

theorem candidate_ids_collide_counterexample:
  "map asset_id
     (selectManualAsset (ascii ''1700000000001'') sampleStock
        (selectManualAsset (ascii ''1700000000001'') sampleStock []))
     = [ascii ''manual-1700000000001'', ascii ''manual-1700000000001'']
   \<and> \<not> distinct (map asset_id
         (selectManualAsset (ascii ''1700000000001'') sampleStock
            (selectManualAsset (ascii ''1700000000001'') sampleStock [])))
   \<and> asset_confidence (last (addToProposal (ascii ''0.25'') sampleRecommendation [])) = None"
  by (simp add: selectManualAsset_def addToProposal_def sampleRecommendation_def ascii_def)

section \<open>The rebalance slide's two columns\<close>

lemma isSellRow_labelled: "row_label r \<noteq> None \<Longrightarrow> isSellRow r = Inr (inSellGroup r)"
  by (auto simp add: isSellRow_def inSellGroup_def labelContains_def negativeValue_def hasValue_def)

lemma isBuyRow_labelled: "row_label r \<noteq> None \<Longrightarrow> isBuyRow r = Inr (inBuyGroup r)"
  by (auto simp add: isBuyRow_def inBuyGroup_def labelContains_def negativeValue_def hasValue_def)

lemma filterRows_total:
  "list_all (\<lambda>r. pred r = Inr (f r)) rows \<Longrightarrow> filterRows pred rows = Inr (filter f rows)"
  by (induction rows) simp_all

lemma someRow_total:
  "list_all (\<lambda>r. pred r = Inr (f r)) rows \<Longrightarrow> someRow pred rows = Inr (filter f rows \<noteq> [])"
  by (induction rows) simp_all

lemma remaining_in_buy:
  "filter (\<lambda>r. \<not> inSellGroup r) (filter inBuyGroup rows)
     = filter (\<lambda>r. \<not> inSellGroup r \<and> (labelContains r buyMarker \<or> hasValue r)) rows"
  by (induction rows) (auto simp add: inSellGroup_def inBuyGroup_def)

text \<open>
  Claim C7, as amended. On a slide whose table rows all have a label, the sell column
  lists exactly the rows whose label contains the sell marker or whose primary value is
  negative; the notice that nothing is to be sold is shown exactly when that group is
  empty; and of the remaining rows the buy column lists exactly those whose label
  contains the buy marker or whose primary value is present.
\<close>

theorem rebalance_groups:
  assumes "tableData slide = Some rows" and "list_all (\<lambda>r. row_label r \<noteq> None) rows"
  shows "sellRows slide = Inr (filter inSellGroup rows)
       \<and> showNothingToSell slide = Inr (filter inSellGroup rows = [])
       \<and> (\<exists>buy. buyRows slide = Inr buy
              \<and> filter (\<lambda>r. \<not> inSellGroup r) buy
                  = filter (\<lambda>r. \<not> inSellGroup r \<and> (labelContains r buyMarker \<or> hasValue r)) rows)"
proof -
  have s: "list_all (\<lambda>r. isSellRow r = Inr (inSellGroup r)) rows"
    using assms(2) by (simp add: list_all_iff isSellRow_labelled)
  have b: "list_all (\<lambda>r. isBuyRow r = Inr (inBuyGroup r)) rows"
    using assms(2) by (simp add: list_all_iff isBuyRow_labelled)
  have sell: "sellRows slide = Inr (filter inSellGroup rows)"
    using filterRows_total [OF s] assms(1) by (simp add: sellRows_def)
  have notice: "showNothingToSell slide = Inr (filter inSellGroup rows = [])"
    using someRow_total [OF s] assms(1) by (simp add: showNothingToSell_def)
  have buy: "buyRows slide = Inr (filter inBuyGroup rows)"
    using filterRows_total [OF b] assms(1) by (simp add: buyRows_def)
  from buy remaining_in_buy [of rows]
  have "\<exists>buy. buyRows slide = Inr buy
          \<and> filter (\<lambda>r. \<not> inSellGroup r) buy
              = filter (\<lambda>r. \<not> inSellGroup r \<and> (labelContains r buyMarker \<or> hasValue r)) rows"
    by blast
  with sell notice show ?thesis by blast
qed

lemma sample_groups:
  "inSellGroup saleRow" "inBuyGroup saleRow"
  "inSellGroup negativeRow" "\<not> inBuyGroup negativeRow"
  "\<not> inSellGroup purchaseRow" "inBuyGroup purchaseRow"
  "\<not> inSellGroup emptyRow" "\<not> inBuyGroup emptyRow"
  by (simp_all add: inSellGroup_def inBuyGroup_def labelContains_def negativeValue_def hasValue_def
        saleRow_def negativeRow_def purchaseRow_def emptyRow_def sellMarker_def buyMarker_def ascii_def)

theorem rebalance_groups_witness:
  "sellRows (rebalanceSlide [negativeRow, purchaseRow, emptyRow]) = Inr [negativeRow]
   \<and> showNothingToSell (rebalanceSlide [negativeRow, purchaseRow, emptyRow]) = Inr False
   \<and> (\<exists>buy. buyRows (rebalanceSlide [negativeRow, purchaseRow, emptyRow]) = Inr buy
          \<and> filter (\<lambda>r. \<not> inSellGroup r) buy = [purchaseRow])
   \<and> sellRows (rebalanceSlide [purchaseRow]) = Inr []
   \<and> showNothingToSell (rebalanceSlide [purchaseRow]) = Inr True
   \<and> (\<exists>buy. buyRows (rebalanceSlide [purchaseRow]) = Inr buy
          \<and> filter (\<lambda>r. \<not> inSellGroup r) buy = [purchaseRow])"
proof -
  have l: "list_all (\<lambda>r. row_label r \<noteq> None) [negativeRow, purchaseRow, emptyRow]"
       "list_all (\<lambda>r. row_label r \<noteq> None) [purchaseRow]"
    by (simp_all add: negativeRow_def purchaseRow_def emptyRow_def)
  have t: "tableData (rebalanceSlide [negativeRow, purchaseRow, emptyRow])
             = Some [negativeRow, purchaseRow, emptyRow]"
       "tableData (rebalanceSlide [purchaseRow]) = Some [purchaseRow]"
    by (simp_all add: rebalanceSlide_def)
  have v: "hasValue purchaseRow" "\<not> hasValue emptyRow"
          "\<not> labelContains emptyRow buyMarker"
    by (simp_all add: hasValue_def labelContains_def purchaseRow_def emptyRow_def buyMarker_def
          ascii_def)
  from rebalance_groups [OF t(1) l(1)] rebalance_groups [OF t(2) l(2)]
  show ?thesis by (simp add: sample_groups v)
qed

text \<open>
  The claim as stated fails: the buy column is not the complement of the sell column. Of
  the four sample rows, the row labelled as a sale with a positive value is listed in both
  columns, and the row without marker and value in neither.
\<close>

theorem rebalance_groups_counterexample:
  "sellRows (rebalanceSlide [saleRow, negativeRow, purchaseRow, emptyRow]) = Inr [saleRow, negativeRow]
   \<and> buyRows (rebalanceSlide [saleRow, negativeRow, purchaseRow, emptyRow]) = Inr [saleRow, purchaseRow]"
proof -
  have l: "list_all (\<lambda>r. row_label r \<noteq> None) [saleRow, negativeRow, purchaseRow, emptyRow]"
    by (simp add: saleRow_def negativeRow_def purchaseRow_def emptyRow_def)
  have s: "list_all (\<lambda>r. isSellRow r = Inr (inSellGroup r)) [saleRow, negativeRow, purchaseRow, emptyRow]"
    using l by (simp add: isSellRow_labelled)
  have b: "list_all (\<lambda>r. isBuyRow r = Inr (inBuyGroup r)) [saleRow, negativeRow, purchaseRow, emptyRow]"
    using l by (simp add: isBuyRow_labelled)
  show ?thesis
    using filterRows_total [OF s] filterRows_total [OF b]
    by (simp add: sellRows_def buyRows_def rebalanceSlide_def sample_groups)
qed

section \<open>The chat edit of the slide editor\<close>

lemma str_or_empty: "str_or t [] = [] \<Longrightarrow> str_or t d = d"
  by (cases t) (simp_all split: if_splits)

lemma aiTextEdit_fallback:
  assumes "rewriteFailsOrEmpty w currentText instruction calls"
  shows "fst (aiTextEdit w currentText instruction calls) = currentText"
proof -
  let ?g = "generateWithRetry w
              \<lparr>model = REPORT_MODEL, contents = TextEditPrompt currentText instruction\<rparr> calls"
  show ?thesis
  proof (cases "fst ?g")
    case (Inl e)
    then show ?thesis by (simp add: aiTextEdit_def split_beta)
  next
    case (Inr r)
    show ?thesis
    proof (cases r)
      case None
      with Inr show ?thesis by (simp add: aiTextEdit_def split_beta)
    next
      case (Some resp)
      with Inr assms have "str_or (resp_text resp) [] = []"
        by (simp add: rewriteFailsOrEmpty_def)
      then have "str_or (resp_text resp) currentText = currentText"
        by (rule str_or_empty)
      with Inr Some show ?thesis
        by (simp add: aiTextEdit_def split_beta del: str_or.simps)
    qed
  qed
qed

lemma str_or_present: "str_or (Some s) [] = s"
  by simp

text \<open>
  Claim C10, as amended. When \<^verbatim>\<open>handleChatSubmit\<close> passes a document on, the selected
  index is a slide of the old document, the title, the client name and the number of
  slides are unchanged, every other slide is unchanged, and the selected slide differs
  from the old one in \<^verbatim>\<open>bodyText\<close> at most. When the rewrite request fails or returns
  no text, the new \<^verbatim>\<open>bodyText\<close> is the old text, read as the empty string when the
  slide had none; so a slide that had a \<^verbatim>\<open>bodyText\<close> is unchanged.
\<close>

theorem chat_edit_frame:
  assumes "handleChatSubmit w data i chatInput calls = (Inr (Some data'), calls')"
  shows "i < length (slides data)
       \<and> pres_title data' = pres_title data
       \<and> clientName data' = clientName data
       \<and> length (slides data') = length (slides data)
       \<and> (\<forall>j. j \<noteq> i \<longrightarrow> slides data' ! j = slides data ! j)
       \<and> (\<exists>t. slides data' ! i = (slides data ! i)\<lparr>bodyText := Some t\<rparr>)
       \<and> (rewriteFailsOrEmpty w (str_or (bodyText (slides data ! i)) []) chatInput calls \<longrightarrow>
            slides data' ! i
              = (slides data ! i)\<lparr>bodyText := Some (str_or (bodyText (slides data ! i)) [])\<rparr>)
       \<and> (rewriteFailsOrEmpty w (str_or (bodyText (slides data ! i)) []) chatInput calls
            \<and> bodyText (slides data ! i) \<noteq> None \<longrightarrow> data' = data)"
proof -
  let ?old = "slides data ! i"
  let ?cur = "str_or (bodyText ?old) []"
  let ?t = "fst (aiTextEdit w ?cur chatInput calls)"
  from assms have nonempty: "chatInput \<noteq> []" and i: "i < length (slides data)"
    by (auto simp add: handleChatSubmit_def split: if_splits)
  from assms nonempty i
  have d: "data' = data\<lparr>slides := (slides data)[i := ?old\<lparr>bodyText := Some ?t\<rparr>]\<rparr>"
    by (simp add: handleChatSubmit_def Let_def split_beta)
  have others: "\<forall>j. j \<noteq> i \<longrightarrow> slides data' ! j = slides data ! j"
    by (simp add: d)
  have this_one: "slides data' ! i = ?old\<lparr>bodyText := Some ?t\<rparr>"
    using i by (simp add: d)
  have fallback: "rewriteFailsOrEmpty w ?cur chatInput calls \<longrightarrow>
            slides data' ! i = ?old\<lparr>bodyText := Some ?cur\<rparr>"
    using this_one by (simp add: aiTextEdit_fallback)
  have unchanged: "rewriteFailsOrEmpty w ?cur chatInput calls \<and> bodyText ?old \<noteq> None \<longrightarrow> data' = data"
  proof
    assume a: "rewriteFailsOrEmpty w ?cur chatInput calls \<and> bodyText ?old \<noteq> None"
    then obtain s where s: "bodyText ?old = Some s" by auto
    from a have "?t = ?cur" by (simp add: aiTextEdit_fallback)
    also have "?cur = s" by (simp add: s)
    finally have "?old\<lparr>bodyText := Some ?t\<rparr> = ?old" using s by simp
    then show "data' = data" by (simp add: d)
  qed
  have ex: "\<exists>t. slides data' ! i = ?old\<lparr>bodyText := Some t\<rparr>"
    using this_one by blast
  have frame: "pres_title data' = pres_title data \<and> clientName data' = clientName data
               \<and> length (slides data') = length (slides data)"
    by (simp add: d)
  from i frame others ex fallback unchanged show ?thesis by blast
qed

lemma offline_rewrite_fails: "rewriteFailsOrEmpty offlineWorld currentText instruction calls"
  by (simp add: rewriteFailsOrEmpty_def generateWithRetry_def offlineWorld_def
        networkError_not_quota eval_nat_numeral)

lemma offline_aiTextEdit:
  "aiTextEdit offlineWorld currentText instruction calls =
     (currentText,
      calls @ [GenerateContent \<lparr>model = REPORT_MODEL,
                                contents = TextEditPrompt currentText instruction\<rparr>])"
  by (simp add: aiTextEdit_def generateWithRetry_def offlineWorld_def
        networkError_not_quota eval_nat_numeral)

theorem chat_edit_frame_witness:
  "fst (handleChatSubmit offlineWorld sampleDocument 1 (ascii ''shorter'') [])
     = Inr (Some sampleDocument)
   \<and> rewriteFailsOrEmpty offlineWorld (ascii ''Hold.'') (ascii ''shorter'') []"
proof -
  have b: "str_or (bodyText (slides sampleDocument ! 1)) [] = ascii ''Hold.''"
    by (simp add: sampleDocument_def ascii_def)
  have p: "bodyText (slides sampleDocument ! 1) \<noteq> None"
    by (simp add: sampleDocument_def)
  obtain d c where r: "handleChatSubmit offlineWorld sampleDocument 1 (ascii ''shorter'') []
                         = (Inr (Some d), c)"
    by (simp add: handleChatSubmit_def sampleDocument_def offline_aiTextEdit ascii_def)
  from chat_edit_frame [OF r] offline_rewrite_fails [of "ascii ''Hold.''" "ascii ''shorter''" "[]"] b p
  have "d = sampleDocument" by simp
  with r offline_rewrite_fails show ?thesis by simp
qed

text \<open>
  The claim as stated fails on a slide without \<^verbatim>\<open>bodyText\<close>, such as the slide of
  the fallback document: after a failed rewrite its \<^verbatim>\<open>bodyText\<close> is the empty string.
\<close>

theorem chat_edit_sets_empty_text_counterexample:
  "bodyText (hd (slides getMockProposal)) = None
   \<and> fst (handleChatSubmit offlineWorld getMockProposal 0 (ascii ''shorter'') [])
       = Inr (Some (getMockProposal
               \<lparr>slides := [(hd (slides getMockProposal))\<lparr>bodyText := Some []\<rparr>]\<rparr>))"
  by (simp add: handleChatSubmit_def getMockProposal_def offline_aiTextEdit ascii_def)

section \<open>Region hints of an imported document\<close>

text \<open>The two string methods are the prefix and the contiguous-sublist relations.\<close>

lemma startsWith_prefix: "str_startsWith s t \<longleftrightarrow> prefix t s"
  by (induction s t rule: str_startsWith.induct) auto

lemma includes_sublist: "str_includes s t \<longleftrightarrow> sublist t s"
  by (induction s) (auto simp add: startsWith_prefix sublist_Cons_right)

lemma matchRegion_found:
  assumes "find (\<lambda>pref. str_includes r pref \<or> str_includes pref r) PREFECTURES = Some m"
  shows "matchRegion r = m \<and> m \<in> set PREFECTURES \<and> (str_includes r m \<or> str_includes m r)"
proof -
  from assms have m: "m \<in> set PREFECTURES" and c: "str_includes r m \<or> str_includes m r"
    by (auto simp add: find_Some_iff)
  from m have "m \<noteq> []" by (auto simp add: PREFECTURES_def)
  with assms m c show ?thesis by (simp add: matchRegion_def)
qed

lemma matchRegion_not_found:
  assumes "list_all (\<lambda>pref. \<not> str_includes r pref \<and> \<not> str_includes pref r) PREFECTURES"
  shows "matchRegion r = r"
proof -
  from assms have "find (\<lambda>pref. str_includes r pref \<or> str_includes pref r) PREFECTURES = None"
    by (simp add: find_None_iff list_all_iff)
  then show ?thesis by (simp add: matchRegion_def)
qed

lemma matchRegion_examples:
  "matchRegion [0x6771, 0x4EAC] = [0x6771, 0x4EAC, 0x90FD]"
  "matchRegion (ascii ''Mars'') = ascii ''Mars''"
  by (simp_all add: matchRegion_def PREFECTURES_def ascii_def)

lemma applyHints_region:
  "hint_region p = Some r \<Longrightarrow> r \<noteq> [] \<Longrightarrow> region (applyHints p prev) = matchRegion r"
  by (simp add: applyHints_def Let_def)

lemma processFile_merge_region:
  assumes "extractedProfile parseResult = Some e" and "profile parseResult = Some p"
    and "hint_region p = Some r" and "r \<noteq> []"
  shows "region (processFile_merge parseResult newAssetsWithIds prev) = matchRegion r"
  using assms by (simp add: processFile_merge_def applyHints_region)

lemma processFile_merge_without_extractedProfile:
  "extractedProfile parseResult = None \<Longrightarrow>
   processFile_merge parseResult newAssetsWithIds prev
     = prev\<lparr>currentHoldings := currentHoldings prev @ newAssetsWithIds\<rparr>"
  by (simp add: processFile_merge_def)

text \<open>
  Claim C9. A region hint of an imported document is to be resolved against the
  prefecture list. \<^verbatim>\<open>processFile\<close> reads the hints from the key \<^verbatim>\<open>profile\<close> but
  only inside a test of the key \<^verbatim>\<open>extractedProfile\<close>: an import result that carries
  the hint under \<^verbatim>\<open>profile\<close>, as the parser's prompt asks for, leaves the region as it
  was. With both keys present the same hint resolves to the 13th prefecture, as the
  matching by containment (lemmas \<open>matchRegion_found\<close>, \<open>matchRegion_not_found\<close>)
  says.
\<close>

theorem region_hint_not_merged:
  "hint_region (the (profile importedResult)) = Some [0x6771, 0x4EAC]
   \<and> region (processFile_merge importedResult [] osakaProfile) = [0x5927, 0x962A, 0x5E9C]
   \<and> region (processFile_merge (importedResult\<lparr>extractedProfile := Some noHints\<rparr>) [] osakaProfile)
       = [0x6771, 0x4EAC, 0x90FD]"
proof -
  have a: "region (processFile_merge importedResult [] osakaProfile) = [0x5927, 0x962A, 0x5E9C]"
    by (simp add: processFile_merge_without_extractedProfile importedResult_def osakaProfile_def)
  have b: "region (processFile_merge (importedResult\<lparr>extractedProfile := Some noHints\<rparr>) [] osakaProfile)
             = matchRegion [0x6771, 0x4EAC]"
    by (rule processFile_merge_region [where p = tokyoHint])
       (simp_all add: importedResult_def tokyoHint_def)
  show ?thesis
    using a b by (simp add: matchRegion_examples importedResult_def tokyoHint_def)
qed

end
